theory Spec2Isabelle
  imports Main "HOL-Library.Word" "HOL-Library.Monad_Syntax"
begin

section \<open>C strings and the libc routines the driver calls\<close>

text \<open>
  A byte array is given by the list of its bytes up to a position behind which every
  byte is zero, so \<open>[]\<close> is an array cleared by \<open>memset\<close>. The C string held in an
  array is the bytes before the first NUL. \<open>const char *\<close> arguments are
  \<open>string option\<close>, \<open>None\<close> being the NULL pointer; a pointer into an array is the
  list of bytes from that position on.
\<close>

definition NUL :: char where
  "NUL = CHR 0x00"

definition CRLF :: string where
  "CRLF = [CHR 0x0D, CHR 0x0A]"

definition quoted :: "string \<Rightarrow> string" where
  "quoted s = CHR 0x22 # s @ [CHR 0x22]"

definition cstr :: "char list \<Rightarrow> string" where
  "cstr mem = takeWhile (\<lambda>c. c \<noteq> NUL) mem"

text \<open>\<open>strchr(p, c)\<close>: the position of the first \<open>c\<close> in the C string at \<open>p\<close>.\<close>

fun strchr :: "char list \<Rightarrow> char \<Rightarrow> char list option" where
  "strchr [] c = None"
| "strchr (x # xs) c =
     (if x = c then Some (x # xs) else if x = NUL then None else strchr xs c)"

text \<open>\<open>strstr(p, pat)\<close>: the position of the first occurrence of \<open>pat\<close>.\<close>

fun strstr :: "char list \<Rightarrow> string \<Rightarrow> char list option" where
  "strstr [] pat = (if pat = [] then Some [] else None)"
| "strstr (x # xs) pat =
     (if take (length pat) (x # xs) = pat then Some (x # xs)
      else if x = NUL then None else strstr xs pat)"

text \<open>\<open>atoi\<close>: optional white space, an optional sign, then decimal digits.\<close>

definition isspace :: "char \<Rightarrow> bool" where
  "isspace c = (c \<in> set [CHR '' '', CHR 0x09, CHR 0x0A, CHR 0x0B, CHR 0x0C, CHR 0x0D])"

definition isdigit :: "char \<Rightarrow> bool" where
  "isdigit c = (48 \<le> (of_char c :: nat) \<and> (of_char c :: nat) \<le> 57)"

definition digit_val :: "char \<Rightarrow> int" where
  "digit_val c = of_char c - 48"

fun atoi_digits :: "int \<Rightarrow> char list \<Rightarrow> int" where
  "atoi_digits acc [] = acc"
| "atoi_digits acc (c # cs) =
     (if isdigit c then atoi_digits (acc * 10 + digit_val c) cs else acc)"

definition atoi :: "char list \<Rightarrow> int" where
  "atoi p =
     (case dropWhile isspace p of
        [] \<Rightarrow> 0
      | c # cs \<Rightarrow>
          if c = CHR ''-'' then - atoi_digits 0 cs
          else if c = CHR ''+'' then atoi_digits 0 cs
          else atoi_digits 0 (c # cs))"

text \<open>\<open>%d\<close> of \<open>printf\<close>.\<close>

function dec :: "nat \<Rightarrow> string" where
  "dec n = (if n < 10 then [''0123456789'' ! n]
            else dec (n div 10) @ [''0123456789'' ! (n mod 10)])"
  by pat_completeness auto
termination
  by (relation "measure id") auto

declare dec.simps [simp del]

definition fmt_d :: "int \<Rightarrow> string" where
  "fmt_d i = (if i < 0 then CHR ''-'' # dec (nat (- i)) else dec (nat i))"

section \<open>The board: the \<open>esp8266\<close> handle, the HAL tick and the UART\<close>

text \<open>
  The HAL and the UART hardware are not part of the repository; they are the environment
  of the driver and appear here as data of the board:
  \<^item> \<open>tick\<close> is the time in ms since reset; \<open>HAL_GetTick\<close> reads it as a 32-bit counter;
  \<^item> \<open>slack\<close> is by how much a \<open>HAL_Delay(ms)\<close> overshoots \<open>ms\<close> (the STM32 HAL adds
    one tick; interrupt latency adds more);
  \<^item> \<open>irqs\<close> are the interrupts still to come, each with the time at which it is raised:
    a receive event on the co-processor's UART with the received bytes, or the
    completion of a DMA transmission;
  \<^item> \<open>hal_tx\<close> are the statuses that the coming calls of \<open>HAL_UART_Transmit_DMA\<close>
    return (\<open>HAL_OK\<close> once the list is used up);
  \<^item> \<open>wire\<close> are the transfers started on the UART so far, oldest first.
  Code between two delays takes no time, so interrupts are served inside \<open>HAL_Delay\<close>.
  Only the fields of \<open>ESP8266_Handle_t\<close> that the functions below read or write are kept.
\<close>

datatype ESP8266_Status_t =
    ESP8266_OK | ESP8266_ERROR | ESP8266_TIMEOUT | ESP8266_BUSY | ESP8266_NOT_FOUND
  | ESP8266_CONNECT_FAIL | ESP8266_SEND_FAIL | ESP8266_ALREADY_CONNECTED
  | ESP8266_NOT_CONNECTED | ESP8266_WIFI_DISCONNECT | ESP8266_INVALID_PARAM

datatype HAL_StatusTypeDef = HAL_OK | HAL_ERROR | HAL_BUSY | HAL_TIMEOUT

datatype irq = RxEvent "char list" | TxCplt

definition ESP8266_RX_BUF_SIZE :: nat where "ESP8266_RX_BUF_SIZE = 2048"
definition ESP8266_TX_BUF_SIZE :: nat where "ESP8266_TX_BUF_SIZE = 1024"
definition ESP8266_DEFAULT_TIMEOUT :: "32 word" where "ESP8266_DEFAULT_TIMEOUT = 3000"

record ESP8266_Handle_t =
  rxBuffer :: "char list"
  rxLength :: nat
  rxComplete :: bool
  txBuffer :: "char list"
  txBusy :: bool
  esp_initialized :: bool

record board = ESP8266_Handle_t +
  tick :: nat
  slack :: nat
  irqs :: "(nat \<times> irq) list"
  hal_tx :: "HAL_StatusTypeDef list"
  wire :: "char list list"

definition HAL_GetTick :: "board \<Rightarrow> 32 word" where
  "HAL_GetTick b = of_nat (tick b)"

text \<open>
  \<open>HAL_UARTEx_RxEventCallback\<close> and \<open>HAL_UART_TxCpltCallback\<close> for the co-processor's
  UART. The receive event copies the \<open>Size\<close> received bytes over the start of \<open>rxBuffer\<close>
  and terminates them; the bytes behind stay as they were. (The DMA is armed with the
  size of the buffer, so \<open>Size\<close> is at most \<open>ESP8266_RX_BUF_SIZE\<close>.)
\<close>

definition HAL_UARTEx_RxEventCallback :: "char list \<Rightarrow> board \<Rightarrow> board" where
  "HAL_UARTEx_RxEventCallback bytes b =
     (if 0 < length bytes
      then b\<lparr>rxBuffer := bytes @ NUL # drop (length bytes + 1) (rxBuffer b),
             rxLength := length bytes, rxComplete := True\<rparr>
      else b)"

definition HAL_UART_TxCpltCallback :: "board \<Rightarrow> board" where
  "HAL_UART_TxCpltCallback b = b\<lparr>txBusy := False\<rparr>"

fun serve :: "irq \<Rightarrow> board \<Rightarrow> board" where
  "serve (RxEvent bytes) b = HAL_UARTEx_RxEventCallback bytes b"
| "serve TxCplt b = HAL_UART_TxCpltCallback b"

definition serve_due :: "board \<Rightarrow> board" where
  "serve_due b =
     fold (\<lambda>(t, i). serve i) (filter (\<lambda>(t, i). t \<le> tick b) (irqs b))
       (b\<lparr>irqs := filter (\<lambda>(t, i). \<not> t \<le> tick b) (irqs b)\<rparr>)"

definition HAL_Delay :: "nat \<Rightarrow> board \<Rightarrow> board" where
  "HAL_Delay ms b = serve_due (b\<lparr>tick := tick b + ms + slack b\<rparr>)"

definition ESP8266_Delay :: "nat \<Rightarrow> board \<Rightarrow> board" where
  "ESP8266_Delay ms b = HAL_Delay ms b"

definition HAL_UART_Transmit_DMA :: "char list \<Rightarrow> board \<Rightarrow> HAL_StatusTypeDef \<times> board" where
  "HAL_UART_Transmit_DMA bytes b =
     (case hal_tx b of
        [] \<Rightarrow> (HAL_OK, b\<lparr>wire := wire b @ [bytes]\<rparr>)
      | st # sts \<Rightarrow>
          (st, if st = HAL_OK then b\<lparr>hal_tx := sts, wire := wire b @ [bytes]\<rparr>
               else b\<lparr>hal_tx := sts\<rparr>))"

section \<open>Transport: \<open>ESP8266_SendDMA\<close>\<close>

text \<open>
  Both loops of \<open>ESP8266_SendDMA\<close> have the shape
  \<^verbatim>\<open>while (esp8266.txBusy) { if (HAL_GetTick() - timeout > limit) ...; ESP8266_Delay(1); }\<close>
  The result is \<open>True\<close> when the loop is left because \<open>txBusy\<close> is clear and \<open>False\<close> when
  it is left through the body's return.
\<close>

partial_function (option) wait_txBusy :: "32 word \<Rightarrow> 32 word \<Rightarrow> board \<Rightarrow> (bool \<times> board) option" where
  "wait_txBusy timeout limit b =
     (if txBusy b then
        (if HAL_GetTick b - timeout > limit then Some (False, b)
         else wait_txBusy timeout limit (ESP8266_Delay 1 b))
      else Some (True, b))"

declare wait_txBusy.simps [code]

definition ESP8266_SendDMA :: "char list option \<Rightarrow> nat \<Rightarrow> board \<Rightarrow> (ESP8266_Status_t \<times> board) option" where
  "ESP8266_SendDMA data len b =
     (case data of
        None \<Rightarrow> Some (ESP8266_INVALID_PARAM, b)
      | Some bytes \<Rightarrow>
          if len = 0 then Some (ESP8266_INVALID_PARAM, b)
          else do {
            (free, b1) \<leftarrow> wait_txBusy (HAL_GetTick b) 1000 b;
            if \<not> free then Some (ESP8266_TIMEOUT, b1)
            else
              (case HAL_UART_Transmit_DMA (take len bytes) (b1\<lparr>txBusy := True\<rparr>) of
                 (st, b2) \<Rightarrow>
                   if st \<noteq> HAL_OK then Some (ESP8266_ERROR, b2\<lparr>txBusy := False\<rparr>)
                   else do {
                     (sent, b3) \<leftarrow> wait_txBusy (HAL_GetTick b2) 5000 b2;
                     if \<not> sent then Some (ESP8266_TIMEOUT, b3\<lparr>txBusy := False\<rparr>)
                     else Some (ESP8266_OK, b3)
                   })
          })"

section \<open>Command engine\<close>

definition ESP8266_ClearBuffer :: "board \<Rightarrow> board" where
  "ESP8266_ClearBuffer b =
     b\<lparr>rxBuffer := [], rxLength := 0, rxComplete := False\<rparr>"

definition ESP8266_ContainsString :: "string \<Rightarrow> board \<Rightarrow> bool" where
  "ESP8266_ContainsString str b = (strstr (rxBuffer b) str \<noteq> None)"

definition ESP8266_GetResponseBuffer :: "board \<Rightarrow> char list" where
  "ESP8266_GetResponseBuffer b = rxBuffer b"

text \<open>
  \<^verbatim>\<open>while (HAL_GetTick() - start < timeout) {
    if (ESP8266_ContainsString(response)) return 1;
    ESP8266_Delay(10); }
  return 0;\<close>
\<close>

partial_function (option) WaitForResponse_loop :: "32 word \<Rightarrow> string \<Rightarrow> 32 word \<Rightarrow> board \<Rightarrow> (bool \<times> board) option" where
  "WaitForResponse_loop start response timeout b =
     (if HAL_GetTick b - start < timeout then
        (if ESP8266_ContainsString response b then Some (True, b)
         else WaitForResponse_loop start response timeout (ESP8266_Delay 10 b))
      else Some (False, b))"

declare WaitForResponse_loop.simps [code]

definition ESP8266_WaitForResponse :: "string \<Rightarrow> 32 word \<Rightarrow> board \<Rightarrow> (bool \<times> board) option" where
  "ESP8266_WaitForResponse response timeout b =
     WaitForResponse_loop (HAL_GetTick b) response timeout b"

text \<open>The length handed to \<open>ESP8266_SendDMA\<close> is \<open>strlen(cmd)\<close> converted to \<open>uint16_t\<close>.\<close>

definition ESP8266_SendCommand :: "string option \<Rightarrow> string option \<Rightarrow> 32 word \<Rightarrow> board \<Rightarrow> (ESP8266_Status_t \<times> board) option" where
  "ESP8266_SendCommand cmd expectedResp timeout b =
     (case cmd of
        None \<Rightarrow> Some (ESP8266_INVALID_PARAM, b)
      | Some c \<Rightarrow> do {
          (_, b1) \<leftarrow> ESP8266_SendDMA (Some c) (length c mod 65536) (ESP8266_ClearBuffer b);
          (case expectedResp of
             None \<Rightarrow> Some (ESP8266_OK, b1)
           | Some resp \<Rightarrow> do {
               (found, b2) \<leftarrow> ESP8266_WaitForResponse resp timeout b1;
               if found then Some (ESP8266_OK, b2)
               else if ESP8266_ContainsString ''ERROR'' b2 then Some (ESP8266_ERROR, b2)
               else if ESP8266_ContainsString ''BUSY'' b2 then Some (ESP8266_BUSY, b2)
               else Some (ESP8266_TIMEOUT, b2)
             })
        })"

text \<open>
  \<open>ESP8266_SendCommandF\<close>: \<open>vsnprintf\<close> writes the formatted command, cut to
  \<open>ESP8266_TX_BUF_SIZE - 1\<close> characters, into \<open>txBuffer\<close>. The formatted text is built
  by the caller here.
\<close>

definition ESP8266_SendCommandF :: "string option \<Rightarrow> 32 word \<Rightarrow> string \<Rightarrow> board \<Rightarrow> (ESP8266_Status_t \<times> board) option" where
  "ESP8266_SendCommandF expectedResp timeout formatted b =
     (let b' = b\<lparr>txBuffer := take (ESP8266_TX_BUF_SIZE - 1) formatted\<rparr>
      in ESP8266_SendCommand (Some (txBuffer b')) expectedResp timeout b')"

section \<open>The MQTT session: \<open>esp8266_mqtt.h\<close>\<close>

datatype MQTT_Status_t =
    MQTT_OK | MQTT_ERROR | MQTT_TIMEOUT | MQTT_NOT_INITIALIZED | MQTT_NOT_CONNECTED
  | MQTT_ALREADY_CONNECTED | MQTT_CONNECT_FAIL | MQTT_SUBSCRIBE_FAIL | MQTT_PUBLISH_FAIL
  | MQTT_INVALID_PARAM | MQTT_BUFFER_FULL | MQTT_WIFI_NOT_CONNECTED

datatype MQTT_QoS_t = MQTT_QOS_0 | MQTT_QOS_1 | MQTT_QOS_2

fun qos_val :: "MQTT_QoS_t \<Rightarrow> int" where
  "qos_val MQTT_QOS_0 = 0"
| "qos_val MQTT_QOS_1 = 1"
| "qos_val MQTT_QOS_2 = 2"

datatype MQTT_State_t =
    MQTT_STATE_NOT_INIT | MQTT_STATE_USER_SET | MQTT_STATE_CONN_SET | MQTT_STATE_DISCONNECTED
  | MQTT_STATE_CONNECTED | MQTT_STATE_CONN_NO_SUB | MQTT_STATE_CONN_WITH_SUB

fun state_val :: "MQTT_State_t \<Rightarrow> int" where
  "state_val MQTT_STATE_NOT_INIT = 0"
| "state_val MQTT_STATE_USER_SET = 1"
| "state_val MQTT_STATE_CONN_SET = 2"
| "state_val MQTT_STATE_DISCONNECTED = 3"
| "state_val MQTT_STATE_CONNECTED = 4"
| "state_val MQTT_STATE_CONN_NO_SUB = 5"
| "state_val MQTT_STATE_CONN_WITH_SUB = 6"

definition MQTT_LINK_ID :: int where "MQTT_LINK_ID = 0"
definition MQTT_TOPIC_MAX_LEN :: nat where "MQTT_TOPIC_MAX_LEN = 128"
definition MQTT_MESSAGE_MAX_LEN :: nat where "MQTT_MESSAGE_MAX_LEN = 1024"
definition MQTT_HOST_MAX_LEN :: nat where "MQTT_HOST_MAX_LEN = 128"
definition MQTT_CONNECT_TIMEOUT :: "32 word" where "MQTT_CONNECT_TIMEOUT = 10000"
definition MQTT_PUBLISH_TIMEOUT :: "32 word" where "MQTT_PUBLISH_TIMEOUT = 5000"
definition MQTT_SUBSCRIBE_TIMEOUT :: "32 word" where "MQTT_SUBSCRIBE_TIMEOUT = 5000"
definition MQTT_DEFAULT_TIMEOUT :: "32 word" where "MQTT_DEFAULT_TIMEOUT = 3000"
definition MQTT_MAX_SUBSCRIPTIONS :: nat where "MQTT_MAX_SUBSCRIPTIONS = 8"

record MQTT_BrokerConfig_t =
  host :: string
  port :: "16 word"
  reconnect :: "8 word"

record MQTT_Subscription_t =
  topic :: string
  qos :: MQTT_QoS_t
  active :: bool

record MQTT_Message_t =
  msg_topic :: string
  msg_data :: "char list"
  msg_dataLen :: "16 word"
  msg_qos :: MQTT_QoS_t
  msg_retain :: "8 word"

text \<open>
  \<open>MQTT_Handle_t\<close>. The field \<open>state\<close> holds the integer of the enumeration, since
  \<open>MQTT_QueryConnection\<close> stores the result of \<open>atoi\<close> in it unchecked. A callback slot
  is \<open>True\<close> when a function is registered. The user and connection configurations are
  left out: no function below reads them.

  Modelled from the spec: \<open>msgPending\<close> and \<open>msgBuffer\<close> are used by \<open>MQTT_ProcessData\<close>
  but the declaration of \<open>MQTT_Handle_t\<close> in \<open>esp8266_mqtt.h\<close> does not have them. They
  are the flagged "message pending" condition and the line stored with it.
\<close>

record MQTT_Handle_t =
  brokerConfig :: MQTT_BrokerConfig_t
  subscriptions :: "MQTT_Subscription_t list"
  subscriptionCount :: "8 word"
  state :: int
  initialized :: bool
  connected :: bool
  publishCount :: "32 word"
  receiveCount :: "32 word"
  reconnectCount :: "32 word"
  onConnected :: bool
  onDisconnected :: bool
  onMessageReceived :: bool
  onPublishComplete :: bool
  onSubscribed :: bool
  onUnsubscribed :: bool
  onError :: bool
  msgPending :: bool
  msgBuffer :: "char list"

text \<open>
  The application's callbacks are outside the repository's core. A call of one is
  recorded, with its argument, in \<open>fired\<close>; the callback itself is taken not to call back
  into the library.
\<close>

datatype callback =
    OnConnected | OnDisconnected | OnMessageReceived MQTT_Message_t
  | OnPublishComplete string | OnSubscribed string | OnUnsubscribed string
  | OnError MQTT_Status_t

record globals =
  mqtt :: MQTT_Handle_t
  esp8266 :: board
  fired :: "callback list"

definition call :: "bool \<Rightarrow> callback \<Rightarrow> globals \<Rightarrow> globals" where
  "call slot cb g = (if slot then g\<lparr>fired := fired g @ [cb]\<rparr> else g)"

definition zero_sub :: MQTT_Subscription_t where
  "zero_sub = \<lparr>topic = [], qos = MQTT_QOS_0, active = False\<rparr>"

definition zero_handle :: MQTT_Handle_t where
  "zero_handle =
     \<lparr>brokerConfig = \<lparr>host = [], port = 0, reconnect = 0\<rparr>,
      subscriptions = replicate MQTT_MAX_SUBSCRIPTIONS zero_sub, subscriptionCount = 0,
      state = 0, initialized = False, connected = False,
      publishCount = 0, receiveCount = 0, reconnectCount = 0,
      onConnected = False, onDisconnected = False, onMessageReceived = False,
      onPublishComplete = False, onSubscribed = False, onUnsubscribed = False,
      onError = False, msgPending = False, msgBuffer = []\<rparr>"

definition ESP8266_IsInitialized :: "board \<Rightarrow> bool" where
  "ESP8266_IsInitialized b = esp_initialized b"

definition MQTT_Init :: "globals \<Rightarrow> MQTT_Status_t \<times> globals" where
  "MQTT_Init g =
     (if \<not> ESP8266_IsInitialized (esp8266 g) then (MQTT_NOT_INITIALIZED, g)
      else (MQTT_OK,
            g\<lparr>mqtt := zero_handle
                 \<lparr>brokerConfig := \<lparr>host = [], port = 1883, reconnect = 1\<rparr>,
                  state := state_val MQTT_STATE_NOT_INIT, initialized := True\<rparr>\<rparr>))"

definition MQTT_SetBroker :: "string option \<Rightarrow> 16 word \<Rightarrow> 8 word \<Rightarrow> globals \<Rightarrow> MQTT_Status_t \<times> globals" where
  "MQTT_SetBroker h p r g =
     (case h of
        None \<Rightarrow> (MQTT_INVALID_PARAM, g)
      | Some hst \<Rightarrow>
          (MQTT_OK,
           g\<lparr>mqtt := (mqtt g)
                \<lparr>brokerConfig :=
                   \<lparr>host = take (MQTT_HOST_MAX_LEN - 1) hst,
                    port = p, reconnect = (if r \<noteq> 0 then 1 else 0)\<rparr>\<rparr>\<rparr>))"

definition MQTT_Connect :: "globals \<Rightarrow> (MQTT_Status_t \<times> globals) option" where
  "MQTT_Connect g = do {
     (ret, b) \<leftarrow> ESP8266_SendCommandF (Some ''OK'') MQTT_CONNECT_TIMEOUT
        (''AT+MQTTCONN='' @ fmt_d MQTT_LINK_ID @ '','' @ quoted (host (brokerConfig (mqtt g)))
          @ '','' @ fmt_d (uint (port (brokerConfig (mqtt g))))
          @ '','' @ fmt_d (uint (reconnect (brokerConfig (mqtt g)))) @ CRLF)
        (esp8266 g);
     if ret \<noteq> ESP8266_OK
     then Some (MQTT_CONNECT_FAIL,
            call (onError (mqtt g)) (OnError MQTT_CONNECT_FAIL)
              (g\<lparr>esp8266 := b,
                 mqtt := (mqtt g)\<lparr>connected := False,
                                  state := state_val MQTT_STATE_DISCONNECTED\<rparr>\<rparr>))
     else Some (MQTT_OK,
            call (onConnected (mqtt g)) OnConnected
              (g\<lparr>esp8266 := b,
                 mqtt := (mqtt g)\<lparr>connected := True,
                                  state := state_val MQTT_STATE_CONN_NO_SUB\<rparr>\<rparr>))
   }"

definition MQTT_Disconnect :: "globals \<Rightarrow> (MQTT_Status_t \<times> globals) option" where
  "MQTT_Disconnect g =
     (if \<not> initialized (mqtt g) then Some (MQTT_NOT_INITIALIZED, g)
      else do {
        (ret, b) \<leftarrow> ESP8266_SendCommandF (Some ''OK'') MQTT_DEFAULT_TIMEOUT
           (''AT+MQTTCLEAN='' @ fmt_d MQTT_LINK_ID @ CRLF) (esp8266 g);
        Some (if ret = ESP8266_OK then MQTT_OK else MQTT_ERROR,
              call (onDisconnected (mqtt g)) OnDisconnected
                (g\<lparr>esp8266 := b,
                   mqtt := (mqtt g)
                     \<lparr>connected := False, state := state_val MQTT_STATE_DISCONNECTED,
                      subscriptions := replicate MQTT_MAX_SUBSCRIPTIONS zero_sub,
                      subscriptionCount := 0\<rparr>\<rparr>))
      })"

definition MQTT_Clean :: "globals \<Rightarrow> (MQTT_Status_t \<times> globals) option" where
  "MQTT_Clean g = do {
     (ret, b) \<leftarrow> ESP8266_SendCommandF (Some ''OK'') MQTT_DEFAULT_TIMEOUT
        (''AT+MQTTCLEAN='' @ fmt_d MQTT_LINK_ID @ CRLF) (esp8266 g);
     Some (if ret = ESP8266_OK then MQTT_OK else MQTT_ERROR,
           g\<lparr>esp8266 := b,
             mqtt := (mqtt g)\<lparr>connected := False, state := state_val MQTT_STATE_NOT_INIT\<rparr>\<rparr>)
   }"

subsection \<open>The subscription table\<close>

text \<open>
  The first loop of \<open>MQTT_AddSubscription\<close>: the first active entry whose topic compares
  equal gets the new QoS. \<open>None\<close> when the loop ends without returning.
\<close>

fun update_existing :: "string \<Rightarrow> MQTT_QoS_t \<Rightarrow> MQTT_Subscription_t list \<Rightarrow> MQTT_Subscription_t list option" where
  "update_existing t q [] = None"
| "update_existing t q (s # ss) =
     (if active s \<and> topic s = t then Some (s\<lparr>qos := q\<rparr> # ss)
      else map_option ((#) s) (update_existing t q ss))"

text \<open>
  The second loop: the first inactive entry takes the topic (\<open>strncpy\<close> of at most
  \<open>MQTT_TOPIC_MAX_LEN - 1\<close> characters into an entry that is all zero).
\<close>

fun add_new :: "string \<Rightarrow> MQTT_QoS_t \<Rightarrow> MQTT_Subscription_t list \<Rightarrow> MQTT_Subscription_t list option" where
  "add_new t q [] = None"
| "add_new t q (s # ss) =
     (if \<not> active s
      then Some (s\<lparr>topic := take (MQTT_TOPIC_MAX_LEN - 1) t, qos := q, active := True\<rparr> # ss)
      else map_option ((#) s) (add_new t q ss))"

definition MQTT_AddSubscription :: "string \<Rightarrow> MQTT_QoS_t \<Rightarrow> MQTT_Handle_t \<Rightarrow> MQTT_Handle_t" where
  "MQTT_AddSubscription t q h =
     (case update_existing t q (subscriptions h) of
        Some subs \<Rightarrow> h\<lparr>subscriptions := subs\<rparr>
      | None \<Rightarrow>
          (case add_new t q (subscriptions h) of
             Some subs \<Rightarrow> h\<lparr>subscriptions := subs, subscriptionCount := subscriptionCount h + 1\<rparr>
           | None \<Rightarrow> h))"

fun remove_first :: "string \<Rightarrow> MQTT_Subscription_t list \<Rightarrow> MQTT_Subscription_t list option" where
  "remove_first t [] = None"
| "remove_first t (s # ss) =
     (if active s \<and> topic s = t then Some (zero_sub # ss)
      else map_option ((#) s) (remove_first t ss))"

definition MQTT_RemoveSubscription :: "string \<Rightarrow> MQTT_Handle_t \<Rightarrow> MQTT_Handle_t" where
  "MQTT_RemoveSubscription t h =
     (case remove_first t (subscriptions h) of
        Some subs \<Rightarrow> h\<lparr>subscriptions := subs, subscriptionCount := subscriptionCount h - 1\<rparr>
      | None \<Rightarrow> h)"

definition MQTT_Subscribe :: "string option \<Rightarrow> MQTT_QoS_t \<Rightarrow> globals \<Rightarrow> (MQTT_Status_t \<times> globals) option" where
  "MQTT_Subscribe tp q g =
     (if \<not> initialized (mqtt g) then Some (MQTT_NOT_INITIALIZED, g)
      else if \<not> connected (mqtt g) then Some (MQTT_NOT_CONNECTED, g)
      else case tp of
        None \<Rightarrow> Some (MQTT_INVALID_PARAM, g)
      | Some t \<Rightarrow>
          if unat (subscriptionCount (mqtt g)) \<ge> MQTT_MAX_SUBSCRIPTIONS
          then Some (MQTT_BUFFER_FULL, g)
          else do {
            (ret, b) \<leftarrow> ESP8266_SendCommandF (Some ''OK'') MQTT_SUBSCRIBE_TIMEOUT
               (''AT+MQTTSUB='' @ fmt_d MQTT_LINK_ID @ '','' @ quoted t @ '',''
                 @ fmt_d (qos_val q) @ CRLF) (esp8266 g);
            if ret \<noteq> ESP8266_OK then Some (MQTT_SUBSCRIBE_FAIL, g\<lparr>esp8266 := b\<rparr>)
            else Some (MQTT_OK,
                   call (onSubscribed (mqtt g)) (OnSubscribed t)
                     (g\<lparr>esp8266 := b,
                        mqtt := (MQTT_AddSubscription t q (mqtt g))
                                  \<lparr>state := state_val MQTT_STATE_CONN_WITH_SUB\<rparr>\<rparr>))
          })"

definition MQTT_Unsubscribe :: "string option \<Rightarrow> globals \<Rightarrow> (MQTT_Status_t \<times> globals) option" where
  "MQTT_Unsubscribe tp g =
     (if \<not> initialized (mqtt g) then Some (MQTT_NOT_INITIALIZED, g)
      else if \<not> connected (mqtt g) then Some (MQTT_NOT_CONNECTED, g)
      else case tp of
        None \<Rightarrow> Some (MQTT_INVALID_PARAM, g)
      | Some t \<Rightarrow> do {
          (ret, b) \<leftarrow> ESP8266_SendCommandF (Some ''OK'') MQTT_DEFAULT_TIMEOUT
             (''AT+MQTTUNSUB='' @ fmt_d MQTT_LINK_ID @ '','' @ quoted t @ CRLF) (esp8266 g);
          if ret \<noteq> ESP8266_OK then Some (MQTT_ERROR, g\<lparr>esp8266 := b\<rparr>)
          else Some (MQTT_OK,
                 call (onUnsubscribed (mqtt g)) (OnUnsubscribed t)
                   (g\<lparr>esp8266 := b, mqtt := MQTT_RemoveSubscription t (mqtt g)\<rparr>))
        })"

text \<open>\<open>MQTT_GetSubscriptions\<close>: the active entries, in order, and their number.\<close>

definition MQTT_GetSubscriptions :: "globals \<Rightarrow> MQTT_Subscription_t list \<times> nat" where
  "MQTT_GetSubscriptions g =
     (let list = filter active (subscriptions (mqtt g)) in (list, length list))"

subsection \<open>Publishing\<close>

text \<open>
  \<open>memcpy\<close> of \<open>n\<close> bytes copies them whatever they are; bytes behind the end of the
  list are the zeros of the array.
\<close>

definition memcpy_from :: "char list \<Rightarrow> nat \<Rightarrow> char list" where
  "memcpy_from src n = take n (src @ replicate (n - length src) NUL)"


text \<open>
  The last loop of \<open>MQTT_Publish\<close>; the caller does what the loop does before it
  returns \<open>MQTT_OK\<close>.
\<close>

partial_function (option) Publish_wait :: "32 word \<Rightarrow> board \<Rightarrow> (MQTT_Status_t \<times> board) option" where
  "Publish_wait startTick b =
     (if HAL_GetTick b - startTick < MQTT_PUBLISH_TIMEOUT then
        (if ESP8266_ContainsString ''+MQTTPUB:OK'' b \<or> ESP8266_ContainsString ''OK'' b
         then Some (MQTT_OK, b)
         else if ESP8266_ContainsString ''ERROR'' b \<or> ESP8266_ContainsString ''FAIL'' b
         then Some (MQTT_PUBLISH_FAIL, b)
         else Publish_wait startTick (HAL_Delay 10 b))
      else Some (MQTT_TIMEOUT, b))"

declare Publish_wait.simps [code]

text \<open>
  In the source the first two checks of \<open>MQTT_Publish\<close> are commented out:
  \<^verbatim>\<open>//    if (!mqtt.initialized) return MQTT_NOT_INITIALIZED;
//    if (!mqtt.connected) return MQTT_NOT_CONNECTED;\<close>
  so the function starts at the check of its arguments.
\<close>

definition MQTT_Publish :: "string option \<Rightarrow> string option \<Rightarrow> MQTT_QoS_t \<Rightarrow> 8 word \<Rightarrow> globals \<Rightarrow> (MQTT_Status_t \<times> globals) option" where
  "MQTT_Publish tp message q retain g =
     (case (tp, message) of
        (Some t, Some msg) \<Rightarrow>
          (let len = length msg mod 65536 in do {
             (ret, b) \<leftarrow> ESP8266_SendCommandF (Some ''>'') MQTT_DEFAULT_TIMEOUT
                (''AT+MQTTPUBRAW='' @ fmt_d MQTT_LINK_ID @ '','' @ quoted t @ '',''
                  @ fmt_d (int len) @ '','' @ fmt_d (qos_val q) @ '',''
                  @ fmt_d (if retain \<noteq> 0 then 1 else 0) @ CRLF) (esp8266 g);
             if ret \<noteq> ESP8266_OK then Some (MQTT_PUBLISH_FAIL, g\<lparr>esp8266 := b\<rparr>)
             else do {
               (ret2, b2) \<leftarrow> ESP8266_SendDMA (Some msg) len (ESP8266_ClearBuffer b);
               if ret2 \<noteq> ESP8266_OK then Some (MQTT_PUBLISH_FAIL, g\<lparr>esp8266 := b2\<rparr>)
               else do {
                 (st, b3) \<leftarrow> Publish_wait (HAL_GetTick b2) b2;
                 if st = MQTT_OK
                 then Some (MQTT_OK,
                        call (onPublishComplete (mqtt g)) (OnPublishComplete t)
                          (g\<lparr>esp8266 := b3,
                             mqtt := (mqtt g)\<lparr>publishCount := publishCount (mqtt g) + 1\<rparr>\<rparr>))
                 else Some (st, g\<lparr>esp8266 := b3\<rparr>)
               }
             }
           })
      | _ \<Rightarrow> Some (MQTT_INVALID_PARAM, g))"

definition MQTT_PublishRaw :: "string option \<Rightarrow> char list option \<Rightarrow> nat \<Rightarrow> MQTT_QoS_t \<Rightarrow> 8 word \<Rightarrow> globals \<Rightarrow> (MQTT_Status_t \<times> globals) option" where
  "MQTT_PublishRaw tp dat len q retain g =
     (case (tp, dat) of
        (Some t, Some d) \<Rightarrow>
          if len = 0 then Some (MQTT_INVALID_PARAM, g)
          else do {
            (ret, b) \<leftarrow> ESP8266_SendCommandF (Some ''>'') MQTT_DEFAULT_TIMEOUT
               (''AT+MQTTPUBRAW='' @ fmt_d MQTT_LINK_ID @ '','' @ quoted t @ '',''
                 @ fmt_d (int len) @ '','' @ fmt_d (qos_val q) @ '',''
                 @ fmt_d (if retain \<noteq> 0 then 1 else 0) @ CRLF) (esp8266 g);
            if ret \<noteq> ESP8266_OK then Some (MQTT_PUBLISH_FAIL, g\<lparr>esp8266 := b\<rparr>)
            else do {
              (ret2, b2) \<leftarrow> ESP8266_SendDMA (Some d) len (ESP8266_ClearBuffer b);
              if ret2 \<noteq> ESP8266_OK then Some (MQTT_PUBLISH_FAIL, g\<lparr>esp8266 := b2\<rparr>)
              else do {
                (found, b3) \<leftarrow> ESP8266_WaitForResponse ''+MQTTPUB:OK'' MQTT_PUBLISH_TIMEOUT b2;
                if \<not> found then Some (MQTT_PUBLISH_FAIL, g\<lparr>esp8266 := b3\<rparr>)
                else Some (MQTT_OK,
                       call (onPublishComplete (mqtt g)) (OnPublishComplete t)
                         (g\<lparr>esp8266 := b3,
                            mqtt := (mqtt g)\<lparr>publishCount := publishCount (mqtt g) + 1\<rparr>\<rparr>))
              }
            }
          }
      | _ \<Rightarrow> Some (MQTT_INVALID_PARAM, g))"

text \<open>
  \<open>MQTT_PublishData\<close> keeps both checks. A short payload is copied into a buffer,
  terminated and handed to \<open>MQTT_Publish\<close> as a C string, which ends at its first NUL.
  \<open>len\<close> is a \<open>uint16_t\<close>.
\<close>

definition MQTT_PublishData :: "string option \<Rightarrow> char list option \<Rightarrow> nat \<Rightarrow> MQTT_QoS_t \<Rightarrow> 8 word \<Rightarrow> globals \<Rightarrow> (MQTT_Status_t \<times> globals) option" where
  "MQTT_PublishData tp dat len q retain g =
     (if \<not> initialized (mqtt g) then Some (MQTT_NOT_INITIALIZED, g)
      else if \<not> connected (mqtt g) then Some (MQTT_NOT_CONNECTED, g)
      else case (tp, dat) of
        (Some t, Some d) \<Rightarrow>
          if len = 0 then Some (MQTT_INVALID_PARAM, g)
          else if len < MQTT_MESSAGE_MAX_LEN
          then MQTT_Publish (Some t) (Some (cstr (memcpy_from d len))) q retain g
          else MQTT_PublishRaw (Some t) (Some d) len q retain g
      | _ \<Rightarrow> Some (MQTT_INVALID_PARAM, g))"

subsection \<open>Querying the connection\<close>

definition MQTT_QueryConnection :: "globals \<Rightarrow> (MQTT_Status_t \<times> globals) option" where
  "MQTT_QueryConnection g = do {
     (ret, b) \<leftarrow> ESP8266_SendCommand (Some (''AT+MQTTCONN?'' @ CRLF)) (Some ''OK'')
        MQTT_DEFAULT_TIMEOUT (esp8266 g);
     if ret \<noteq> ESP8266_OK then Some (MQTT_ERROR, g\<lparr>esp8266 := b\<rparr>)
     else Some (MQTT_OK,
       (case strstr (ESP8266_GetResponseBuffer b) ''+MQTTCONN:'' of
          None \<Rightarrow> g\<lparr>esp8266 := b\<rparr>
        | Some ptr \<Rightarrow>
            (case strchr (drop 10 ptr) (CHR '','') of
               None \<Rightarrow> g\<lparr>esp8266 := b\<rparr>
             | Some ptr' \<Rightarrow>
                 (let st = atoi (drop 1 ptr')
                  in g\<lparr>esp8266 := b,
                       mqtt := (mqtt g)\<lparr>state := st, connected := (st \<ge> 4)\<rparr>\<rparr>))))
   }"

subsection \<open>Incoming messages and the periodic tick\<close>

text \<open>\<open>MQTT_ParseSubMessage\<close>. The message handed to the callback is all zero but for
  what is parsed.\<close>

definition MQTT_ParseSubMessage :: "char list option \<Rightarrow> globals \<Rightarrow> MQTT_Status_t \<times> globals" where
  "MQTT_ParseSubMessage dat g =
     (case dat of
        None \<Rightarrow> (MQTT_ERROR, g)
      | Some mem \<Rightarrow>
     (case strstr mem ''+MQTTSUBRECV:'' of
        None \<Rightarrow> (MQTT_ERROR, g)
      | Some p0 \<Rightarrow>
     (case strchr (drop 13 p0) (CHR '','') of
        None \<Rightarrow> (MQTT_ERROR, g)
      | Some p1 \<Rightarrow>
     (let ptr = drop 1 p1;
          (tpc, ptr2) =
            (case ptr of
               c # rest \<Rightarrow>
                 if c = CHR 0x22 then
                   (case strchr rest (CHR 0x22) of
                      Some e \<Rightarrow>
                        (let len = length rest - length e;
                             len' = (if len \<ge> MQTT_TOPIC_MAX_LEN then MQTT_TOPIC_MAX_LEN - 1 else len)
                         in (take len' rest, drop 1 e))
                    | None \<Rightarrow> ([], rest))
                 else ([], ptr)
             | [] \<Rightarrow> ([], ptr))
      in
     (case strchr ptr2 (CHR '','') of
        None \<Rightarrow> (MQTT_ERROR, g)
      | Some p3 \<Rightarrow>
     (let dl = (word_of_int (atoi (drop 1 p3)) :: 16 word) in
     (case strchr (drop 1 p3) (CHR '','') of
        None \<Rightarrow> (MQTT_ERROR, g)
      | Some p4 \<Rightarrow>
     (let copyLen = (if unat dl \<ge> MQTT_MESSAGE_MAX_LEN then MQTT_MESSAGE_MAX_LEN - 1 else unat dl);
          msg = \<lparr>msg_topic = tpc, msg_data = memcpy_from (drop 1 p4) copyLen,
                 msg_dataLen = dl, msg_qos = MQTT_QOS_0, msg_retain = 0\<rparr>
      in (MQTT_OK,
          call (onMessageReceived (mqtt g)) (OnMessageReceived msg)
            (g\<lparr>mqtt := (mqtt g)\<lparr>receiveCount := receiveCount (mqtt g) + 1\<rparr>\<rparr>))))))))))"

definition MQTT_ProcessData :: "globals \<Rightarrow> globals" where
  "MQTT_ProcessData g =
     (if \<not> initialized (mqtt g) then g
      else
        (let g1 = (if msgPending (mqtt g)
                   then snd (MQTT_ParseSubMessage (Some (msgBuffer (mqtt g)))
                               (g\<lparr>mqtt := (mqtt g)\<lparr>msgPending := False\<rparr>\<rparr>))
                   else g);
             respBuf = ESP8266_GetResponseBuffer (esp8266 g1);
             g2 = (if strstr respBuf ''+MQTTDISCONNECTED:'' \<noteq> None
                   then call (onDisconnected (mqtt g1)) OnDisconnected
                          (g1\<lparr>mqtt := (mqtt g1)\<lparr>connected := False,
                                 state := state_val MQTT_STATE_DISCONNECTED\<rparr>\<rparr>)
                   else g1);
             g3 = (if strstr respBuf ''+MQTTCONNECTED:'' \<noteq> None
                   then call (onConnected (mqtt g2)) OnConnected
                          (g2\<lparr>mqtt := (mqtt g2)\<lparr>connected := True,
                                 state := state_val MQTT_STATE_CONNECTED\<rparr>\<rparr>)
                   else g2)
         in if strstr respBuf ''+MQTTSUBRECV:'' \<noteq> None
            then snd (MQTT_ParseSubMessage (Some respBuf) g3)
            else g3))"

text \<open>Registering callbacks.\<close>

definition MQTT_SetOnConnected :: "bool \<Rightarrow> globals \<Rightarrow> globals" where
  "MQTT_SetOnConnected cb g = g\<lparr>mqtt := (mqtt g)\<lparr>onConnected := cb\<rparr>\<rparr>"

definition MQTT_SetOnDisconnected :: "bool \<Rightarrow> globals \<Rightarrow> globals" where
  "MQTT_SetOnDisconnected cb g = g\<lparr>mqtt := (mqtt g)\<lparr>onDisconnected := cb\<rparr>\<rparr>"

definition MQTT_SetOnMessageReceived :: "bool \<Rightarrow> globals \<Rightarrow> globals" where
  "MQTT_SetOnMessageReceived cb g = g\<lparr>mqtt := (mqtt g)\<lparr>onMessageReceived := cb\<rparr>\<rparr>"

definition MQTT_SetOnSubscribed :: "bool \<Rightarrow> globals \<Rightarrow> globals" where
  "MQTT_SetOnSubscribed cb g = g\<lparr>mqtt := (mqtt g)\<lparr>onSubscribed := cb\<rparr>\<rparr>"

definition MQTT_SetOnUnsubscribed :: "bool \<Rightarrow> globals \<Rightarrow> globals" where
  "MQTT_SetOnUnsubscribed cb g = g\<lparr>mqtt := (mqtt g)\<lparr>onUnsubscribed := cb\<rparr>\<rparr>"

section \<open>Programs that use the library\<close>

text \<open>
  An application is a sequence of calls of the functions above on the two global
  handles, which are all zero at reset. Between calls it may let time pass. A handler
  outside \<open>src/\<close> flags a pending message (see \<open>msgPending\<close> above). \<open>run\<close> is \<open>None\<close> when
  a call does not return.
\<close>

datatype api_call =
    Call_Init
  | Call_SetBroker "string option" "16 word" "8 word"
  | Call_Connect
  | Call_Disconnect
  | Call_Clean
  | Call_Subscribe "string option" MQTT_QoS_t
  | Call_Unsubscribe "string option"
  | Call_Publish "string option" "string option" MQTT_QoS_t "8 word"
  | Call_PublishData "string option" "char list option" nat MQTT_QoS_t "8 word"
  | Call_PublishRaw "string option" "char list option" nat MQTT_QoS_t "8 word"
  | Call_QueryConnection
  | Call_ProcessData
  | Call_SetOnConnected bool
  | Call_SetOnDisconnected bool
  | Call_SetOnMessageReceived bool
  | Call_SetOnSubscribed bool
  | Call_SetOnUnsubscribed bool
  | App_Delay nat
  | Msg_Pending "char list"

fun exec :: "api_call \<Rightarrow> globals \<Rightarrow> globals option" where
  "exec Call_Init g = Some (snd (MQTT_Init g))"
| "exec (Call_SetBroker h p r) g = Some (snd (MQTT_SetBroker h p r g))"
| "exec Call_Connect g = map_option snd (MQTT_Connect g)"
| "exec Call_Disconnect g = map_option snd (MQTT_Disconnect g)"
| "exec Call_Clean g = map_option snd (MQTT_Clean g)"
| "exec (Call_Subscribe t q) g = map_option snd (MQTT_Subscribe t q g)"
| "exec (Call_Unsubscribe t) g = map_option snd (MQTT_Unsubscribe t g)"
| "exec (Call_Publish t m q r) g = map_option snd (MQTT_Publish t m q r g)"
| "exec (Call_PublishData t d n q r) g = map_option snd (MQTT_PublishData t d (n mod 65536) q r g)"
| "exec (Call_PublishRaw t d n q r) g = map_option snd (MQTT_PublishRaw t d (n mod 65536) q r g)"
| "exec Call_QueryConnection g = map_option snd (MQTT_QueryConnection g)"
| "exec Call_ProcessData g = Some (MQTT_ProcessData g)"
| "exec (Call_SetOnConnected cb) g = Some (MQTT_SetOnConnected cb g)"
| "exec (Call_SetOnDisconnected cb) g = Some (MQTT_SetOnDisconnected cb g)"
| "exec (Call_SetOnMessageReceived cb) g = Some (MQTT_SetOnMessageReceived cb g)"
| "exec (Call_SetOnSubscribed cb) g = Some (MQTT_SetOnSubscribed cb g)"
| "exec (Call_SetOnUnsubscribed cb) g = Some (MQTT_SetOnUnsubscribed cb g)"
| "exec (App_Delay ms) g = Some (g\<lparr>esp8266 := HAL_Delay ms (esp8266 g)\<rparr>)"
| "exec (Msg_Pending line) g =
     Some (g\<lparr>mqtt := (mqtt g)\<lparr>msgPending := True, msgBuffer := line\<rparr>\<rparr>)"

fun run :: "api_call list \<Rightarrow> globals \<Rightarrow> globals option" where
  "run [] g = Some g"
| "run (c # cs) g = (case exec c g of None \<Rightarrow> None | Some g' \<Rightarrow> run cs g')"

definition at_reset :: "globals \<Rightarrow> bool" where
  "at_reset g = (mqtt g = zero_handle \<and> fired g = [])"

text \<open>
  The table of a session handle is consistent when it has its
  \<open>MQTT_MAX_SUBSCRIPTIONS\<close> entries and \<open>subscriptionCount\<close> is the number of the active ones.
\<close>

definition table_consistent :: "MQTT_Handle_t \<Rightarrow> bool" where
  "table_consistent h =
     (length (subscriptions h) = MQTT_MAX_SUBSCRIPTIONS
      \<and> unat (subscriptionCount h) = length (filter active (subscriptions h)))"

section \<open>Boards and sessions on which the model is run\<close>

text \<open>
  A board at rest: nothing received, nothing in flight, no interrupt to come, delays
  overshooting by one tick. The examples below change the fields they need.
\<close>

definition idle_board :: board where
  "idle_board =
     \<lparr>rxBuffer = [], rxLength = 0, rxComplete = False, txBuffer = [], txBusy = False,
      esp_initialized = True, tick = 0, slack = 1, irqs = [], hal_tx = [], wire = []\<rparr>"

definition fresh :: globals where
  "fresh = \<lparr>mqtt = zero_handle, esp8266 = idle_board, fired = []\<rparr>"

section \<open>Time, interrupts and the polling loops\<close>

text \<open>
  Interrupt handlers and delays change neither the overshoot of the delays nor what has
  been put on the wire, and a delay moves the tick by its length plus the overshoot.
\<close>

lemma serve_frame [simp]:
  "tick (serve i b) = tick b" "slack (serve i b) = slack b"
  "wire (serve i b) = wire b" "hal_tx (serve i b) = hal_tx b"
  by (cases i; simp add: HAL_UARTEx_RxEventCallback_def HAL_UART_TxCpltCallback_def)+

lemma fold_serve_frame [simp]:
  "tick (fold (\<lambda>(t, i). serve i) xs b) = tick b"
  "slack (fold (\<lambda>(t, i). serve i) xs b) = slack b"
  "wire (fold (\<lambda>(t, i). serve i) xs b) = wire b"
  "hal_tx (fold (\<lambda>(t, i). serve i) xs b) = hal_tx b"
  by (induction xs arbitrary: b; simp split: prod.splits)+

lemma HAL_Delay_frame [simp]:
  "tick (HAL_Delay ms b) = tick b + ms + slack b"
  "slack (HAL_Delay ms b) = slack b"
  "wire (HAL_Delay ms b) = wire b"
  "hal_tx (HAL_Delay ms b) = hal_tx b"
  by (simp_all add: HAL_Delay_def serve_due_def)

lemma Delay_pow_frame [simp]:
  "slack ((HAL_Delay ms ^^ k) b) = slack b"
  "wire ((HAL_Delay ms ^^ k) b) = wire b"
  "hal_tx ((HAL_Delay ms ^^ k) b) = hal_tx b"
  by (induction k; simp)+

lemma Delay_pow_tick [simp]:
  "tick ((HAL_Delay ms ^^ k) b) = tick b + k * (ms + slack b)"
  by (induction k) (simp_all add: algebra_simps)

lemma elapsed_word:
  assumes "t0 \<le> t" and "t - t0 < 2 ^ 32"
  shows "unat ((of_nat t :: 32 word) - of_nat t0) = t - t0"
proof -
  have "(of_nat t :: 32 word) - of_nat t0 = of_nat (t - t0)"
    using assms(1) by simp
  then show ?thesis
    using assms(2) by (simp add: unat_of_nat)
qed

lemma elapsed_less:
  assumes "t0 \<le> tick b" and "tick b - t0 < 2 ^ 32"
  shows "HAL_GetTick b - of_nat t0 < T \<longleftrightarrow> tick b - t0 < unat T"
  by (simp add: HAL_GetTick_def word_less_nat_alt elapsed_word [OF assms])

lemma elapsed_greater:
  assumes "t0 \<le> tick b" and "tick b - t0 < 2 ^ 32"
  shows "HAL_GetTick b - of_nat t0 > T \<longleftrightarrow> tick b - t0 > unat T"
  by (simp add: HAL_GetTick_def word_less_nat_alt elapsed_word [OF assms])

lemma wait_txBusy_run:
  assumes "unat limit + slack b + 2 \<le> 2 ^ 32" and "t0 \<le> tick b"
    and "tick b - t0 \<le> unat limit + 1 + slack b"
  shows "\<exists>k r. wait_txBusy (of_nat t0) limit b = Some (r, (HAL_Delay 1 ^^ k) b)
           \<and> (\<forall>j<k. txBusy ((HAL_Delay 1 ^^ j) b) \<and> tick ((HAL_Delay 1 ^^ j) b) - t0 \<le> unat limit)
           \<and> (r \<longleftrightarrow> \<not> txBusy ((HAL_Delay 1 ^^ k) b))
           \<and> (\<not> r \<longrightarrow> unat limit < tick ((HAL_Delay 1 ^^ k) b) - t0)"
  using assms
proof (induction "unat limit + slack b + 2 - (tick b - t0)" arbitrary: b rule: less_induct)
  case less
  have small: "tick b - t0 < 2 ^ 32" using less.prems by linarith
  show ?case
  proof (cases "txBusy b")
    case False
    then have "wait_txBusy (of_nat t0) limit b = Some (True, (HAL_Delay 1 ^^ 0) b)"
      by (subst wait_txBusy.simps) simp
    with False show ?thesis by (intro exI [of _ 0] exI [of _ True]) simp
  next
    case True
    show ?thesis
    proof (cases "unat limit < tick b - t0")
      case late: True
      then have "wait_txBusy (of_nat t0) limit b = Some (False, (HAL_Delay 1 ^^ 0) b)"
        using True elapsed_greater [OF less.prems(2) small, of limit]
        by (subst wait_txBusy.simps) simp
      with True late show ?thesis by (intro exI [of _ 0] exI [of _ False]) simp
    next
      case False
      let ?b1 = "HAL_Delay 1 b"
      have step: "wait_txBusy (of_nat t0) limit b = wait_txBusy (of_nat t0) limit ?b1"
        using True False elapsed_greater [OF less.prems(2) small, of limit]
        by (subst wait_txBusy.simps) (simp add: ESP8266_Delay_def)
      have "\<exists>k r. wait_txBusy (of_nat t0) limit ?b1 = Some (r, (HAL_Delay 1 ^^ k) ?b1)
           \<and> (\<forall>j<k. txBusy ((HAL_Delay 1 ^^ j) ?b1) \<and> tick ((HAL_Delay 1 ^^ j) ?b1) - t0 \<le> unat limit)
           \<and> (r \<longleftrightarrow> \<not> txBusy ((HAL_Delay 1 ^^ k) ?b1))
           \<and> (\<not> r \<longrightarrow> unat limit < tick ((HAL_Delay 1 ^^ k) ?b1) - t0)"
        using less.prems False by (intro less.hyps) simp_all
      then obtain k r where k: "wait_txBusy (of_nat t0) limit ?b1 = Some (r, (HAL_Delay 1 ^^ k) ?b1)"
           "\<forall>j<k. txBusy ((HAL_Delay 1 ^^ j) ?b1) \<and> tick ((HAL_Delay 1 ^^ j) ?b1) - t0 \<le> unat limit"
           "r \<longleftrightarrow> \<not> txBusy ((HAL_Delay 1 ^^ k) ?b1)"
           "\<not> r \<longrightarrow> unat limit < tick ((HAL_Delay 1 ^^ k) ?b1) - t0"
        by blast
      have shift: "\<And>j. (HAL_Delay 1 ^^ j) ?b1 = (HAL_Delay 1 ^^ Suc j) b"
        by (simp add: funpow_swap1)
      have "\<forall>j<Suc k. txBusy ((HAL_Delay 1 ^^ j) b) \<and> tick ((HAL_Delay 1 ^^ j) b) - t0 \<le> unat limit"
      proof (intro allI impI)
        fix j assume "j < Suc k"
        show "txBusy ((HAL_Delay 1 ^^ j) b) \<and> tick ((HAL_Delay 1 ^^ j) b) - t0 \<le> unat limit"
        proof (cases j)
          case 0
          with True False show ?thesis by simp
        next
          case (Suc j')
          with \<open>j < Suc k\<close> k(2) shift show ?thesis by (metis Suc_less_eq)
        qed
      qed
      with k step shift show ?thesis
        by (intro exI [of _ "Suc k"] exI [of _ r]) (simp del: funpow.simps Delay_pow_tick)
    qed
  qed
qed


lemma WaitForResponse_loop_run:
  assumes "unat timeout + slack b + 10 \<le> 2 ^ 32" and "t0 \<le> tick b"
    and "tick b - t0 < unat timeout + 10 + slack b"
  shows "\<exists>k r. WaitForResponse_loop (of_nat t0) resp timeout b = Some (r, (HAL_Delay 10 ^^ k) b)
           \<and> (\<forall>j<k. tick ((HAL_Delay 10 ^^ j) b) - t0 < unat timeout
                     \<and> \<not> ESP8266_ContainsString resp ((HAL_Delay 10 ^^ j) b))
           \<and> (r \<longrightarrow> tick ((HAL_Delay 10 ^^ k) b) - t0 < unat timeout
                     \<and> ESP8266_ContainsString resp ((HAL_Delay 10 ^^ k) b))
           \<and> (\<not> r \<longrightarrow> unat timeout \<le> tick ((HAL_Delay 10 ^^ k) b) - t0)"
  using assms
proof (induction "unat timeout + slack b + 10 - (tick b - t0)" arbitrary: b rule: less_induct)
  case less
  have small: "tick b - t0 < 2 ^ 32" using less.prems by linarith
  note cond = elapsed_less [OF less.prems(2) small, of timeout]
  show ?case
  proof (cases "tick b - t0 < unat timeout")
    case False
    then have "WaitForResponse_loop (of_nat t0) resp timeout b = Some (False, (HAL_Delay 10 ^^ 0) b)"
      using cond by (subst WaitForResponse_loop.simps) simp
    with False show ?thesis by (intro exI [of _ 0] exI [of _ False]) simp
  next
    case True
    show ?thesis
    proof (cases "ESP8266_ContainsString resp b")
      case hit: True
      then have "WaitForResponse_loop (of_nat t0) resp timeout b = Some (True, (HAL_Delay 10 ^^ 0) b)"
        using True cond by (subst WaitForResponse_loop.simps) simp
      with True hit show ?thesis by (intro exI [of _ 0] exI [of _ True]) simp
    next
      case False
      let ?b1 = "HAL_Delay 10 b"
      have step: "WaitForResponse_loop (of_nat t0) resp timeout b
                  = WaitForResponse_loop (of_nat t0) resp timeout ?b1"
        using True False cond
        by (subst WaitForResponse_loop.simps) (simp add: ESP8266_Delay_def)
      have "\<exists>k r. WaitForResponse_loop (of_nat t0) resp timeout ?b1 = Some (r, (HAL_Delay 10 ^^ k) ?b1)
           \<and> (\<forall>j<k. tick ((HAL_Delay 10 ^^ j) ?b1) - t0 < unat timeout
                     \<and> \<not> ESP8266_ContainsString resp ((HAL_Delay 10 ^^ j) ?b1))
           \<and> (r \<longrightarrow> tick ((HAL_Delay 10 ^^ k) ?b1) - t0 < unat timeout
                     \<and> ESP8266_ContainsString resp ((HAL_Delay 10 ^^ k) ?b1))
           \<and> (\<not> r \<longrightarrow> unat timeout \<le> tick ((HAL_Delay 10 ^^ k) ?b1) - t0)"
        using less.prems True by (intro less.hyps) simp_all
      then obtain k r where k:
           "WaitForResponse_loop (of_nat t0) resp timeout ?b1 = Some (r, (HAL_Delay 10 ^^ k) ?b1)"
           "\<forall>j<k. tick ((HAL_Delay 10 ^^ j) ?b1) - t0 < unat timeout
                     \<and> \<not> ESP8266_ContainsString resp ((HAL_Delay 10 ^^ j) ?b1)"
           "r \<longrightarrow> tick ((HAL_Delay 10 ^^ k) ?b1) - t0 < unat timeout
                     \<and> ESP8266_ContainsString resp ((HAL_Delay 10 ^^ k) ?b1)"
           "\<not> r \<longrightarrow> unat timeout \<le> tick ((HAL_Delay 10 ^^ k) ?b1) - t0"
        by blast
      have shift: "\<And>j. (HAL_Delay 10 ^^ j) ?b1 = (HAL_Delay 10 ^^ Suc j) b"
        by (simp add: funpow_swap1)
      have "\<forall>j<Suc k. tick ((HAL_Delay 10 ^^ j) b) - t0 < unat timeout
                     \<and> \<not> ESP8266_ContainsString resp ((HAL_Delay 10 ^^ j) b)"
      proof (intro allI impI)
        fix j assume "j < Suc k"
        show "tick ((HAL_Delay 10 ^^ j) b) - t0 < unat timeout
                     \<and> \<not> ESP8266_ContainsString resp ((HAL_Delay 10 ^^ j) b)"
        proof (cases j)
          case 0
          with True False show ?thesis by simp
        next
          case (Suc j')
          with \<open>j < Suc k\<close> k(2) shift show ?thesis by (metis Suc_less_eq)
        qed
      qed
      with k step shift show ?thesis
        by (intro exI [of _ "Suc k"] exI [of _ r]) (simp del: funpow.simps Delay_pow_tick)
    qed
  qed
qed


lemma Transmit_DMA_frame [simp]:
  "slack (snd (HAL_UART_Transmit_DMA bytes b)) = slack b"
  "tick (snd (HAL_UART_Transmit_DMA bytes b)) = tick b"
  "wire (snd (HAL_UART_Transmit_DMA bytes b)) =
     (if fst (HAL_UART_Transmit_DMA bytes b) = HAL_OK then wire b @ [bytes] else wire b)"
  by (simp_all add: HAL_UART_Transmit_DMA_def split: list.splits)

lemma Transmit_DMA_slack:
  "HAL_UART_Transmit_DMA bytes b = (hst, b2) \<Longrightarrow> slack b2 = slack b"
  by (auto simp: HAL_UART_Transmit_DMA_def split: list.splits if_splits)

lemma SendDMA_run:
  assumes "len \<noteq> 0" and "slack b + 5002 \<le> 2 ^ 32"
  shows "\<exists>k st b'. ESP8266_SendDMA (Some bytes) len b = Some (st, b')
     \<and> (\<forall>j<k. txBusy ((HAL_Delay 1 ^^ j) b) \<and> tick ((HAL_Delay 1 ^^ j) b) - tick b \<le> 1000)
     \<and> (if txBusy ((HAL_Delay 1 ^^ k) b)
        then st = ESP8266_TIMEOUT \<and> b' = (HAL_Delay 1 ^^ k) b \<and> 1000 < tick b' - tick b
        else (case HAL_UART_Transmit_DMA (take len bytes) (((HAL_Delay 1 ^^ k) b)\<lparr>txBusy := True\<rparr>) of
               (hst, b2) \<Rightarrow>
                 if hst \<noteq> HAL_OK then st = ESP8266_ERROR \<and> b' = b2\<lparr>txBusy := False\<rparr>
                 else (\<exists>n. (\<forall>j<n. txBusy ((HAL_Delay 1 ^^ j) b2)
                                  \<and> tick ((HAL_Delay 1 ^^ j) b2) - tick b2 \<le> 5000)
                        \<and> (if txBusy ((HAL_Delay 1 ^^ n) b2)
                           then st = ESP8266_TIMEOUT \<and> b' = ((HAL_Delay 1 ^^ n) b2)\<lparr>txBusy := False\<rparr>
                                \<and> 5000 < tick ((HAL_Delay 1 ^^ n) b2) - tick b2
                           else st = ESP8266_OK \<and> b' = (HAL_Delay 1 ^^ n) b2))))"
proof -
  have "\<exists>k r. wait_txBusy (of_nat (tick b)) 1000 b = Some (r, (HAL_Delay 1 ^^ k) b)
           \<and> (\<forall>j<k. txBusy ((HAL_Delay 1 ^^ j) b) \<and> tick ((HAL_Delay 1 ^^ j) b) - tick b \<le> unat (1000 :: 32 word))
           \<and> (r \<longleftrightarrow> \<not> txBusy ((HAL_Delay 1 ^^ k) b))
           \<and> (\<not> r \<longrightarrow> unat (1000 :: 32 word) < tick ((HAL_Delay 1 ^^ k) b) - tick b)"
    using assms(2) by (intro wait_txBusy_run) simp_all
  then obtain k r where w1: "wait_txBusy (of_nat (tick b)) 1000 b = Some (r, (HAL_Delay 1 ^^ k) b)"
     and busy1: "\<forall>j<k. txBusy ((HAL_Delay 1 ^^ j) b) \<and> tick ((HAL_Delay 1 ^^ j) b) - tick b \<le> 1000"
     and r: "r \<longleftrightarrow> \<not> txBusy ((HAL_Delay 1 ^^ k) b)"
     and late1: "\<not> r \<longrightarrow> 1000 < tick ((HAL_Delay 1 ^^ k) b) - tick b"
    by auto
  let ?b1 = "(HAL_Delay 1 ^^ k) b"
  show ?thesis
  proof (cases "txBusy ?b1")
    case True
    with w1 r late1 assms(1) have "ESP8266_SendDMA (Some bytes) len b = Some (ESP8266_TIMEOUT, ?b1)"
      by (simp add: ESP8266_SendDMA_def HAL_GetTick_def)
    with True busy1 late1 r show ?thesis
      by (intro exI [of _ k] exI [of _ ESP8266_TIMEOUT] exI [of _ ?b1]) simp
  next
    case False
    obtain hst b2 where tx: "HAL_UART_Transmit_DMA (take len bytes) (?b1\<lparr>txBusy := True\<rparr>) = (hst, b2)"
      by (cases "HAL_UART_Transmit_DMA (take len bytes) (?b1\<lparr>txBusy := True\<rparr>)")
    have b2: "slack b2 = slack b"
      using Transmit_DMA_slack [OF tx] by simp
    show ?thesis
    proof (cases "hst = HAL_OK")
      case refused: False
      with w1 r False tx assms(1)
      have "ESP8266_SendDMA (Some bytes) len b = Some (ESP8266_ERROR, b2\<lparr>txBusy := False\<rparr>)"
        by (simp add: ESP8266_SendDMA_def HAL_GetTick_def)
      with False busy1 tx refused show ?thesis
        by (intro exI [of _ k] exI [of _ ESP8266_ERROR] exI [of _ "b2\<lparr>txBusy := False\<rparr>"]) simp
    next
      case True
      have "\<exists>n r2. wait_txBusy (of_nat (tick b2)) 5000 b2 = Some (r2, (HAL_Delay 1 ^^ n) b2)
           \<and> (\<forall>j<n. txBusy ((HAL_Delay 1 ^^ j) b2) \<and> tick ((HAL_Delay 1 ^^ j) b2) - tick b2 \<le> unat (5000 :: 32 word))
           \<and> (r2 \<longleftrightarrow> \<not> txBusy ((HAL_Delay 1 ^^ n) b2))
           \<and> (\<not> r2 \<longrightarrow> unat (5000 :: 32 word) < tick ((HAL_Delay 1 ^^ n) b2) - tick b2)"
        using assms(2) b2 by (intro wait_txBusy_run) simp_all
      then obtain n r2 where w2: "wait_txBusy (of_nat (tick b2)) 5000 b2 = Some (r2, (HAL_Delay 1 ^^ n) b2)"
         and busy2: "\<forall>j<n. txBusy ((HAL_Delay 1 ^^ j) b2) \<and> tick ((HAL_Delay 1 ^^ j) b2) - tick b2 \<le> 5000"
         and r2: "r2 \<longleftrightarrow> \<not> txBusy ((HAL_Delay 1 ^^ n) b2)"
         and late2: "\<not> r2 \<longrightarrow> 5000 < tick ((HAL_Delay 1 ^^ n) b2) - tick b2"
        by auto
      let ?b3 = "(HAL_Delay 1 ^^ n) b2"
      let ?st = "if txBusy ?b3 then ESP8266_TIMEOUT else ESP8266_OK"
      let ?b' = "if txBusy ?b3 then ?b3\<lparr>txBusy := False\<rparr> else ?b3"
      from w1 r False tx True w2 r2 assms(1)
      have "ESP8266_SendDMA (Some bytes) len b = Some (?st, ?b')"
        by (simp add: ESP8266_SendDMA_def HAL_GetTick_def)
      moreover have "\<exists>n. (\<forall>j<n. txBusy ((HAL_Delay 1 ^^ j) b2)
                                  \<and> tick ((HAL_Delay 1 ^^ j) b2) - tick b2 \<le> 5000)
                        \<and> (if txBusy ((HAL_Delay 1 ^^ n) b2)
                           then ?st = ESP8266_TIMEOUT \<and> ?b' = ((HAL_Delay 1 ^^ n) b2)\<lparr>txBusy := False\<rparr>
                                \<and> 5000 < tick ((HAL_Delay 1 ^^ n) b2) - tick b2
                           else ?st = ESP8266_OK \<and> ?b' = (HAL_Delay 1 ^^ n) b2)"
        using busy2 late2 r2 by (intro exI [of _ n]) simp
      ultimately show ?thesis
        using False busy1 tx True
        by (intro exI [of _ k] exI [of _ ?st] exI [of _ ?b']) (simp del: Delay_pow_tick)
    qed
  qed
qed


lemma SendDMA_total:
  assumes "slack b + 5002 \<le> 2 ^ 32"
  shows "\<exists>st b'. ESP8266_SendDMA dat len b = Some (st, b') \<and> slack b' = slack b"
proof (cases "dat = None \<or> len = 0")
  case True
  then show ?thesis
    by (auto simp: ESP8266_SendDMA_def split: option.splits)
next
  case False
  then obtain bytes where dat: "dat = Some bytes" and len: "len \<noteq> 0" by auto
  from SendDMA_run [OF len assms, of bytes]
  obtain k st b' where run: "ESP8266_SendDMA (Some bytes) len b = Some (st, b')"
    and shape: "if txBusy ((HAL_Delay 1 ^^ k) b)
        then st = ESP8266_TIMEOUT \<and> b' = (HAL_Delay 1 ^^ k) b \<and> 1000 < tick b' - tick b
        else (case HAL_UART_Transmit_DMA (take len bytes) (((HAL_Delay 1 ^^ k) b)\<lparr>txBusy := True\<rparr>) of
               (hst, b2) \<Rightarrow>
                 if hst \<noteq> HAL_OK then st = ESP8266_ERROR \<and> b' = b2\<lparr>txBusy := False\<rparr>
                 else (\<exists>n. (\<forall>j<n. txBusy ((HAL_Delay 1 ^^ j) b2)
                                  \<and> tick ((HAL_Delay 1 ^^ j) b2) - tick b2 \<le> 5000)
                        \<and> (if txBusy ((HAL_Delay 1 ^^ n) b2)
                           then st = ESP8266_TIMEOUT \<and> b' = ((HAL_Delay 1 ^^ n) b2)\<lparr>txBusy := False\<rparr>
                                \<and> 5000 < tick ((HAL_Delay 1 ^^ n) b2) - tick b2
                           else st = ESP8266_OK \<and> b' = (HAL_Delay 1 ^^ n) b2)))"
    by blast
  obtain hst b2 where tx: "HAL_UART_Transmit_DMA (take len bytes) (((HAL_Delay 1 ^^ k) b)\<lparr>txBusy := True\<rparr>) = (hst, b2)"
    by (cases "HAL_UART_Transmit_DMA (take len bytes) (((HAL_Delay 1 ^^ k) b)\<lparr>txBusy := True\<rparr>)")
  have b2: "slack b2 = slack b"
    using Transmit_DMA_slack [OF tx] by simp
  have "slack b' = slack b"
  proof (cases "txBusy ((HAL_Delay 1 ^^ k) b)")
    case True
    with shape show ?thesis by simp
  next
    case False
    with shape tx b2 show ?thesis
      by (auto split: if_splits)
  qed
  with run dat show ?thesis by blast
qed

lemma ClearBuffer_frame [simp]:
  "slack (ESP8266_ClearBuffer b) = slack b" "tick (ESP8266_ClearBuffer b) = tick b"
  "wire (ESP8266_ClearBuffer b) = wire b" "txBusy (ESP8266_ClearBuffer b) = txBusy b"
  by (simp_all add: ESP8266_ClearBuffer_def)

lemma SendCommand_run:
  assumes "slack b + 5002 \<le> 2 ^ 32" and "unat d + slack b + 10 \<le> 2 ^ 32"
  shows "\<exists>s b1 k. ESP8266_SendDMA (Some cmd) (length cmd mod 65536) (ESP8266_ClearBuffer b) = Some (s, b1)
     \<and> slack b1 = slack b
     \<and> (\<forall>j<k. j * (10 + slack b) < unat d \<and> \<not> ESP8266_ContainsString t ((HAL_Delay 10 ^^ j) b1))
     \<and> (if k * (10 + slack b) < unat d
        then ESP8266_ContainsString t ((HAL_Delay 10 ^^ k) b1)
             \<and> ESP8266_SendCommand (Some cmd) (Some t) d b = Some (ESP8266_OK, (HAL_Delay 10 ^^ k) b1)
        else ESP8266_SendCommand (Some cmd) (Some t) d b
             = Some (if ESP8266_ContainsString ''ERROR'' ((HAL_Delay 10 ^^ k) b1) then ESP8266_ERROR
                     else if ESP8266_ContainsString ''BUSY'' ((HAL_Delay 10 ^^ k) b1) then ESP8266_BUSY
                     else ESP8266_TIMEOUT, (HAL_Delay 10 ^^ k) b1))"
proof -
  from SendDMA_total [of "ESP8266_ClearBuffer b" "Some cmd" "length cmd mod 65536"] assms(1)
  obtain s b1 where dma: "ESP8266_SendDMA (Some cmd) (length cmd mod 65536) (ESP8266_ClearBuffer b) = Some (s, b1)"
    and b1: "slack b1 = slack b"
    by auto
  have "\<exists>k r. WaitForResponse_loop (of_nat (tick b1)) t d b1 = Some (r, (HAL_Delay 10 ^^ k) b1)
           \<and> (\<forall>j<k. tick ((HAL_Delay 10 ^^ j) b1) - tick b1 < unat d
                     \<and> \<not> ESP8266_ContainsString t ((HAL_Delay 10 ^^ j) b1))
           \<and> (r \<longrightarrow> tick ((HAL_Delay 10 ^^ k) b1) - tick b1 < unat d
                     \<and> ESP8266_ContainsString t ((HAL_Delay 10 ^^ k) b1))
           \<and> (\<not> r \<longrightarrow> unat d \<le> tick ((HAL_Delay 10 ^^ k) b1) - tick b1)"
    using assms(2) b1 by (intro WaitForResponse_loop_run) simp_all
  then obtain k r where
    w: "ESP8266_WaitForResponse t d b1 = Some (r, (HAL_Delay 10 ^^ k) b1)"
    and before: "\<forall>j<k. j * (10 + slack b) < unat d \<and> \<not> ESP8266_ContainsString t ((HAL_Delay 10 ^^ j) b1)"
    and hit: "r \<longrightarrow> k * (10 + slack b) < unat d \<and> ESP8266_ContainsString t ((HAL_Delay 10 ^^ k) b1)"
    and miss: "\<not> r \<longrightarrow> unat d \<le> k * (10 + slack b)"
    by (auto simp: ESP8266_WaitForResponse_def HAL_GetTick_def b1)
  show ?thesis
  proof (cases r)
    case True
    with dma w hit have "ESP8266_SendCommand (Some cmd) (Some t) d b = Some (ESP8266_OK, (HAL_Delay 10 ^^ k) b1)"
      by (simp add: ESP8266_SendCommand_def)
    with True dma b1 before hit show ?thesis
      by (intro exI [of _ s] exI [of _ b1] exI [of _ k]) simp
  next
    case False
    with dma w have "ESP8266_SendCommand (Some cmd) (Some t) d b
             = Some (if ESP8266_ContainsString ''ERROR'' ((HAL_Delay 10 ^^ k) b1) then ESP8266_ERROR
                     else if ESP8266_ContainsString ''BUSY'' ((HAL_Delay 10 ^^ k) b1) then ESP8266_BUSY
                     else ESP8266_TIMEOUT, (HAL_Delay 10 ^^ k) b1)"
      by (simp add: ESP8266_SendCommand_def)
    with False dma b1 before miss show ?thesis
      by (intro exI [of _ s] exI [of _ b1] exI [of _ k]) simp
  qed
qed

lemma SendCommand_total:
  assumes "slack b + 5002 \<le> 2 ^ 32" and "unat d + slack b + 10 \<le> 2 ^ 32"
  shows "\<exists>r b'. ESP8266_SendCommand cmd e d b = Some (r, b') \<and> slack b' = slack b"
proof (cases cmd)
  case None
  then show ?thesis by (simp add: ESP8266_SendCommand_def)
next
  case (Some c)
  show ?thesis
  proof (cases e)
    case None
    from SendDMA_total [of "ESP8266_ClearBuffer b" "Some c" "length c mod 65536"] assms(1)
    obtain s b1 where "ESP8266_SendDMA (Some c) (length c mod 65536) (ESP8266_ClearBuffer b) = Some (s, b1)"
      and "slack b1 = slack b"
      by auto
    with None Some show ?thesis by (simp add: ESP8266_SendCommand_def)
  next
    case (Some t)
    from SendCommand_run [OF assms, of c t] \<open>cmd = Some c\<close> Some show ?thesis
      by (auto split: if_splits)
  qed
qed

lemma SendCommandF_total:
  assumes "slack b + 5002 \<le> 2 ^ 32" and "unat d + slack b + 10 \<le> 2 ^ 32"
  shows "\<exists>r b'. ESP8266_SendCommandF e d f b = Some (r, b') \<and> slack b' = slack b"
  using SendCommand_total [of "b\<lparr>txBuffer := take (ESP8266_TX_BUF_SIZE - 1) f\<rparr>" d] assms
  by (simp add: ESP8266_SendCommandF_def Let_def)

section \<open>Running the model\<close>

text \<open>The equations that evaluate the transport and the command engine on a given board.\<close>

lemmas board_eval =
  idle_board_def ESP8266_SendCommand_def ESP8266_SendCommandF_def ESP8266_SendDMA_def
  ESP8266_ClearBuffer_def wait_txBusy.simps HAL_GetTick_def ESP8266_Delay_def HAL_Delay_def
  serve_due_def HAL_UART_TxCpltCallback_def HAL_UARTEx_RxEventCallback_def
  HAL_UART_Transmit_DMA_def ESP8266_WaitForResponse_def WaitForResponse_loop.simps
  ESP8266_ContainsString_def ESP8266_GetResponseBuffer_def ESP8266_TX_BUF_SIZE_def
  CRLF_def NUL_def quoted_def fmt_d_def dec.simps

section \<open>The command engine on a NULL or empty command\<close>

text \<open>
  Claim C8, as stated, fails for the empty command: \<open>ESP8266_SendCommand\<close> only rejects the
  NULL pointer. With an empty command and no expected token the call returns
  \<open>ESP8266_OK\<close>.
\<close>

theorem sendCommand_empty_counterexample:
  "ESP8266_SendCommand (Some []) None 3000 idle_board = Some (ESP8266_OK, idle_board)"
  by (simp add: board_eval)

text \<open>
  Claim C8, amended: a NULL command returns \<open>ESP8266_INVALID_PARAM\<close> and leaves the board
  untouched, so nothing is transmitted. An empty command transmits nothing either
  (\<open>ESP8266_SendDMA\<close> refuses the zero length and its status is dropped), but the call
  does not return \<open>ESP8266_INVALID_PARAM\<close>: the receive buffer is cleared and the result
  is \<open>ESP8266_OK\<close> when no token is expected, and otherwise the outcome of the wait for the
  token.
\<close>

theorem sendCommand_null_or_empty:
  assumes "slack b + 5002 \<le> 2 ^ 32" and "unat d + slack b + 10 \<le> 2 ^ 32"
  shows "ESP8266_SendCommand None e d b = Some (ESP8266_INVALID_PARAM, b)
       \<and> ESP8266_SendCommand (Some []) None d b = Some (ESP8266_OK, ESP8266_ClearBuffer b)
       \<and> (\<exists>r b'. ESP8266_SendCommand (Some []) (Some t) d b = Some (r, b')
             \<and> wire b' = wire b \<and> r \<noteq> ESP8266_INVALID_PARAM)"
proof -
  have dma: "ESP8266_SendDMA (Some []) (length ([] :: char list) mod 65536) (ESP8266_ClearBuffer b)
             = Some (ESP8266_INVALID_PARAM, ESP8266_ClearBuffer b)"
    by (simp add: ESP8266_SendDMA_def)
  from SendCommand_run [OF assms, of "[]" t] dma
  have "\<exists>r b'. ESP8266_SendCommand (Some []) (Some t) d b = Some (r, b')
             \<and> wire b' = wire b \<and> r \<noteq> ESP8266_INVALID_PARAM"
    by (auto split: if_splits)
  then show ?thesis
    by (simp add: ESP8266_SendCommand_def ESP8266_SendDMA_def)
qed

theorem sendCommand_null_or_empty_witness:
  "slack (idle_board\<lparr>slack := 2990\<rparr>) + 5002 \<le> 2 ^ 32
   \<and> unat (3000 :: 32 word) + slack (idle_board\<lparr>slack := 2990\<rparr>) + 10 \<le> 2 ^ 32
   \<and> ESP8266_SendCommand None (Some ''OK'') 3000 (idle_board\<lparr>slack := 2990\<rparr>)
       = Some (ESP8266_INVALID_PARAM, idle_board\<lparr>slack := 2990\<rparr>)
   \<and> ESP8266_SendCommand (Some []) None 3000 (idle_board\<lparr>slack := 2990\<rparr>)
       = Some (ESP8266_OK, idle_board\<lparr>slack := 2990\<rparr>)
   \<and> ESP8266_SendCommand (Some []) (Some ''OK'') 3000 (idle_board\<lparr>slack := 2990\<rparr>)
       = Some (ESP8266_TIMEOUT, idle_board\<lparr>slack := 2990, tick := 3000\<rparr>)"
  using sendCommand_null_or_empty [of "idle_board\<lparr>slack := 2990\<rparr>" 3000 "Some ''OK''" "''OK''"]
  by (simp add: board_eval)

section \<open>The transport's send operation\<close>

text \<open>
  Claim C5, as stated, fails: with a transmit in flight \<open>ESP8266_SendDMA\<close> does not fail
  with \<open>ESP8266_BUSY\<close>. Here the busy flag stays set; the call waits and returns
  \<open>ESP8266_TIMEOUT\<close> two seconds later.
\<close>

theorem sendDMA_busy_counterexample:
  "ESP8266_SendDMA (Some ''AT'') 2 (idle_board\<lparr>txBusy := True, slack := 999\<rparr>)
   = Some (ESP8266_TIMEOUT, idle_board\<lparr>txBusy := True, slack := 999, tick := 2000\<rparr>)"
  by (simp add: board_eval)

text \<open>
  Claim C5, amended: for every non-empty byte sequence the send operation never fails
  with \<open>ESP8266_BUSY\<close>. While a transmit is in flight it polls the busy flag, one
  \<open>ESP8266_Delay(1)\<close> per poll (polls \<open>j < k\<close>), and fails with \<open>ESP8266_TIMEOUT\<close>,
  transmitting nothing, once more than 1000 ms have passed with the flag still set.
  Once the flag is clear it marks the slot busy and starts the transmission; if the HAL
  refuses it the flag is cleared and the result is \<open>ESP8266_ERROR\<close>. Otherwise the caller
  is blocked (polls \<open>j < n\<close>) until the completion notification has cleared the flag,
  which gives \<open>ESP8266_OK\<close>, or more than 5000 ms have passed, in which case the flag is
  cleared and the result is \<open>ESP8266_TIMEOUT\<close>.
\<close>

theorem sendDMA_waits_for_the_slot:
  assumes "len \<noteq> 0" and "slack b + 5002 \<le> 2 ^ 32"
  shows "\<exists>k st b'. ESP8266_SendDMA (Some bytes) len b = Some (st, b')
     \<and> st \<noteq> ESP8266_BUSY
     \<and> (\<forall>j<k. txBusy ((HAL_Delay 1 ^^ j) b) \<and> tick ((HAL_Delay 1 ^^ j) b) - tick b \<le> 1000)
     \<and> (if txBusy ((HAL_Delay 1 ^^ k) b)
        then st = ESP8266_TIMEOUT \<and> b' = (HAL_Delay 1 ^^ k) b \<and> 1000 < tick b' - tick b
        else (case HAL_UART_Transmit_DMA (take len bytes) (((HAL_Delay 1 ^^ k) b)\<lparr>txBusy := True\<rparr>) of
               (hst, b2) \<Rightarrow>
                 if hst \<noteq> HAL_OK then st = ESP8266_ERROR \<and> b' = b2\<lparr>txBusy := False\<rparr>
                 else (\<exists>n. (\<forall>j<n. txBusy ((HAL_Delay 1 ^^ j) b2)
                                  \<and> tick ((HAL_Delay 1 ^^ j) b2) - tick b2 \<le> 5000)
                        \<and> (if txBusy ((HAL_Delay 1 ^^ n) b2)
                           then st = ESP8266_TIMEOUT \<and> b' = ((HAL_Delay 1 ^^ n) b2)\<lparr>txBusy := False\<rparr>
                                \<and> 5000 < tick ((HAL_Delay 1 ^^ n) b2) - tick b2
                           else st = ESP8266_OK \<and> b' = (HAL_Delay 1 ^^ n) b2))))"
proof -
  from SendDMA_run [OF assms, of bytes]
  obtain k st b' where run: "ESP8266_SendDMA (Some bytes) len b = Some (st, b')"
    and busy: "\<forall>j<k. txBusy ((HAL_Delay 1 ^^ j) b) \<and> tick ((HAL_Delay 1 ^^ j) b) - tick b \<le> 1000"
    and shape: "if txBusy ((HAL_Delay 1 ^^ k) b)
        then st = ESP8266_TIMEOUT \<and> b' = (HAL_Delay 1 ^^ k) b \<and> 1000 < tick b' - tick b
        else (case HAL_UART_Transmit_DMA (take len bytes) (((HAL_Delay 1 ^^ k) b)\<lparr>txBusy := True\<rparr>) of
               (hst, b2) \<Rightarrow>
                 if hst \<noteq> HAL_OK then st = ESP8266_ERROR \<and> b' = b2\<lparr>txBusy := False\<rparr>
                 else (\<exists>n. (\<forall>j<n. txBusy ((HAL_Delay 1 ^^ j) b2)
                                  \<and> tick ((HAL_Delay 1 ^^ j) b2) - tick b2 \<le> 5000)
                        \<and> (if txBusy ((HAL_Delay 1 ^^ n) b2)
                           then st = ESP8266_TIMEOUT \<and> b' = ((HAL_Delay 1 ^^ n) b2)\<lparr>txBusy := False\<rparr>
                                \<and> 5000 < tick ((HAL_Delay 1 ^^ n) b2) - tick b2
                           else st = ESP8266_OK \<and> b' = (HAL_Delay 1 ^^ n) b2)))"
    by blast
  have "st \<noteq> ESP8266_BUSY"
    using shape by (auto split: if_splits prod.splits)
  with run busy shape show ?thesis by blast
qed

theorem sendDMA_waits_for_the_slot_witness:
  "(2 :: nat) \<noteq> 0 \<and> slack (idle_board\<lparr>irqs := [(1, TxCplt)]\<rparr>) + 5002 \<le> 2 ^ 32
   \<and> ESP8266_SendDMA (Some ''AT'') 2 (idle_board\<lparr>irqs := [(1, TxCplt)]\<rparr>)
       = Some (ESP8266_OK, idle_board\<lparr>tick := 2, wire := [''AT'']\<rparr>)"
  using sendDMA_waits_for_the_slot [of 2 "idle_board\<lparr>irqs := [(1, TxCplt)]\<rparr>" "''AT''"]
  by (simp add: board_eval)

section \<open>The command engine: how a response is classified\<close>

text \<open>
  Claim C2, as stated, fails: the token is only looked for at the polls. With a timeout
  of 25 ms and delays that overshoot by one tick the wait starts at tick 2 and polls at
  ticks 2, 13 and 24. The response \<open>OK\<close> is received at tick 25, that is 23 ms after the
  wait has started and before the timeout has elapsed; the next look at the tick, at 35,
  ends the wait. The buffer then holds the token and the result is \<open>ESP8266_TIMEOUT\<close>.
\<close>

theorem sendCommand_late_token_counterexample:
  "ESP8266_SendCommand (Some ''AT'') (Some ''OK'') 25
     (idle_board\<lparr>irqs := [(1, TxCplt), (25, RxEvent ''OK'')]\<rparr>)
   = Some (ESP8266_TIMEOUT,
       idle_board\<lparr>rxBuffer := ''OK'' @ [NUL], rxLength := 2, rxComplete := True,
                   tick := 35, wire := [''AT'']\<rparr>)"
  by (simp add: board_eval)

text \<open>
  Claim C2, amended. \<open>ESP8266_SendCommand\<close> with a command and an expected token \<open>t\<close>
  clears the buffer, sends the command (leaving board \<open>b1\<close>) and then polls: poll \<open>j\<close>
  happens \<open>j * (10 + slack)\<close> ms after the wait has started, on the board
  \<open>(HAL_Delay 10 ^^ j) b1\<close>, as long as that is before the timeout \<open>d\<close>. The call returns.
  If a poll before the timeout finds \<open>t\<close> in the buffer the result is \<open>ESP8266_OK\<close>,
  whatever else the buffer holds: only \<open>t\<close> is looked for during the wait. If no poll
  before the timeout finds \<open>t\<close>, the wait ends at the deadline and the buffer as it is
  then decides: \<open>ESP8266_ERROR\<close> if it contains \<open>ERROR\<close>, else \<open>ESP8266_BUSY\<close> if it contains
  \<open>BUSY\<close>, else \<open>ESP8266_TIMEOUT\<close>.
\<close>

theorem sendCommand_token_first:
  assumes "slack b + 5002 \<le> 2 ^ 32" and "unat d + slack b + 10 \<le> 2 ^ 32"
  shows "\<exists>s b1 k r. ESP8266_SendDMA (Some cmd) (length cmd mod 65536) (ESP8266_ClearBuffer b) = Some (s, b1)
     \<and> ESP8266_SendCommand (Some cmd) (Some t) d b = Some (r, (HAL_Delay 10 ^^ k) b1)
     \<and> ((\<exists>j. j * (10 + slack b) < unat d \<and> ESP8266_ContainsString t ((HAL_Delay 10 ^^ j) b1))
          \<longrightarrow> r = ESP8266_OK)
     \<and> ((\<forall>j. j * (10 + slack b) < unat d \<longrightarrow> \<not> ESP8266_ContainsString t ((HAL_Delay 10 ^^ j) b1))
          \<longrightarrow> unat d \<le> k * (10 + slack b)
              \<and> r = (if ESP8266_ContainsString ''ERROR'' ((HAL_Delay 10 ^^ k) b1) then ESP8266_ERROR
                     else if ESP8266_ContainsString ''BUSY'' ((HAL_Delay 10 ^^ k) b1) then ESP8266_BUSY
                     else ESP8266_TIMEOUT))"
proof -
  let ?poll = "\<lambda>j. (HAL_Delay 10 ^^ j) b1"
  from SendCommand_run [OF assms, of cmd t]
  obtain s b1 k where dma: "ESP8266_SendDMA (Some cmd) (length cmd mod 65536) (ESP8266_ClearBuffer b) = Some (s, b1)"
    and before: "\<forall>j<k. j * (10 + slack b) < unat d \<and> \<not> ESP8266_ContainsString t ((HAL_Delay 10 ^^ j) b1)"
    and shape: "if k * (10 + slack b) < unat d
        then ESP8266_ContainsString t ((HAL_Delay 10 ^^ k) b1)
             \<and> ESP8266_SendCommand (Some cmd) (Some t) d b = Some (ESP8266_OK, (HAL_Delay 10 ^^ k) b1)
        else ESP8266_SendCommand (Some cmd) (Some t) d b
             = Some (if ESP8266_ContainsString ''ERROR'' ((HAL_Delay 10 ^^ k) b1) then ESP8266_ERROR
                     else if ESP8266_ContainsString ''BUSY'' ((HAL_Delay 10 ^^ k) b1) then ESP8266_BUSY
                     else ESP8266_TIMEOUT, (HAL_Delay 10 ^^ k) b1)"
    by blast
  show ?thesis
  proof (cases "k * (10 + slack b) < unat d")
    case True
    with shape have found: "ESP8266_ContainsString t ((HAL_Delay 10 ^^ k) b1)"
      and res: "ESP8266_SendCommand (Some cmd) (Some t) d b = Some (ESP8266_OK, (HAL_Delay 10 ^^ k) b1)"
      by simp_all
    from True found
    have "\<not> (\<forall>j. j * (10 + slack b) < unat d \<longrightarrow> \<not> ESP8266_ContainsString t ((HAL_Delay 10 ^^ j) b1))"
      by blast
    with dma res show ?thesis by blast
  next
    case False
    let ?r = "if ESP8266_ContainsString ''ERROR'' ((HAL_Delay 10 ^^ k) b1) then ESP8266_ERROR
              else if ESP8266_ContainsString ''BUSY'' ((HAL_Delay 10 ^^ k) b1) then ESP8266_BUSY
              else ESP8266_TIMEOUT"
    from False shape
    have res: "ESP8266_SendCommand (Some cmd) (Some t) d b = Some (?r, (HAL_Delay 10 ^^ k) b1)"
      by simp
    have none: "\<not> (\<exists>j. j * (10 + slack b) < unat d \<and> ESP8266_ContainsString t ((HAL_Delay 10 ^^ j) b1))"
    proof
      assume "\<exists>j. j * (10 + slack b) < unat d \<and> ESP8266_ContainsString t ((HAL_Delay 10 ^^ j) b1)"
      then obtain j where j: "j * (10 + slack b) < unat d"
        and found: "ESP8266_ContainsString t ((HAL_Delay 10 ^^ j) b1)"
        by blast
      from j False have "j * (10 + slack b) < k * (10 + slack b)" by linarith
      then have "j < k" by simp
      with before found show False by blast
    qed
    from False have late: "unat d \<le> k * (10 + slack b)" by simp
    show ?thesis
      using dma res none late
      by (intro exI [of _ s] exI [of _ b1] exI [of _ k] exI [of _ ?r]) (simp only: simp_thms)
  qed
qed

text \<open>
  On the first board the response holds both \<open>ERROR\<close> and the token and arrives before
  the second poll: the result is \<open>ESP8266_OK\<close>. On the other two the delays are so long
  that the only poll before the timeout is the first one; the response arrives after
  it, with \<open>ERROR\<close> or with nothing the engine knows.
\<close>

theorem sendCommand_token_first_witness:
  "slack (idle_board\<lparr>irqs := [(1, TxCplt), (5, RxEvent ''ERROR OK'')]\<rparr>) + 5002 \<le> 2 ^ 32
   \<and> unat (3000 :: 32 word) + slack (idle_board\<lparr>irqs := [(1, TxCplt), (5, RxEvent ''ERROR OK'')]\<rparr>) + 10 \<le> 2 ^ 32
   \<and> ESP8266_SendCommand (Some ''AT'') (Some ''OK'') 3000
        (idle_board\<lparr>irqs := [(1, TxCplt), (5, RxEvent ''ERROR OK'')]\<rparr>)
      = Some (ESP8266_OK,
          idle_board\<lparr>rxBuffer := ''ERROR OK'' @ [NUL], rxLength := 8, rxComplete := True,
                      tick := 13, wire := [''AT'']\<rparr>)
   \<and> ESP8266_SendCommand (Some ''AT'') (Some ''OK'') 3000
        (idle_board\<lparr>slack := 2990, irqs := [(1, TxCplt), (5000, RxEvent ''ERROR'')]\<rparr>)
      = Some (ESP8266_ERROR,
          idle_board\<lparr>rxBuffer := ''ERROR'' @ [NUL], rxLength := 5, rxComplete := True,
                      slack := 2990, tick := 5991, wire := [''AT'']\<rparr>)
   \<and> ESP8266_SendCommand (Some ''AT'') (Some ''OK'') 3000
        (idle_board\<lparr>slack := 2990, irqs := [(1, TxCplt), (5000, RxEvent ''busy p...'')]\<rparr>)
      = Some (ESP8266_TIMEOUT,
          idle_board\<lparr>rxBuffer := ''busy p...'' @ [NUL], rxLength := 9, rxComplete := True,
                      slack := 2990, tick := 5991, wire := [''AT'']\<rparr>)"
  using sendCommand_token_first [of "idle_board\<lparr>irqs := [(1, TxCplt), (5, RxEvent ''ERROR OK'')]\<rparr>" 3000 "''AT''" "''OK''"]
  by (simp add: board_eval)

section \<open>The MQTT session\<close>

text \<open>
  The equations that evaluate the session layer. The two congruence rules make the
  simplifier run a sequence of steps in order: what follows a step is looked at only
  once the step's result is known.
\<close>

lemma bind_weak_cong: "x = y \<Longrightarrow> Option.bind x f = Option.bind y f"
  by simp

lemmas mqtt_eval =
  fresh_def zero_handle_def zero_sub_def call_def MQTT_Init_def ESP8266_IsInitialized_def
  MQTT_Connect_def MQTT_Disconnect_def MQTT_Clean_def MQTT_Subscribe_def MQTT_Unsubscribe_def
  MQTT_AddSubscription_def MQTT_RemoveSubscription_def MQTT_GetSubscriptions_def
  MQTT_Publish_def MQTT_PublishData_def MQTT_PublishRaw_def Publish_wait.simps
  MQTT_QueryConnection_def MQTT_ParseSubMessage_def MQTT_ProcessData_def memcpy_from_def cstr_def
  MQTT_LINK_ID_def MQTT_TOPIC_MAX_LEN_def MQTT_MESSAGE_MAX_LEN_def MQTT_HOST_MAX_LEN_def
  MQTT_CONNECT_TIMEOUT_def MQTT_PUBLISH_TIMEOUT_def MQTT_SUBSCRIBE_TIMEOUT_def
  MQTT_DEFAULT_TIMEOUT_def MQTT_MAX_SUBSCRIPTIONS_def
  atoi_def isspace_def isdigit_def digit_val_def Let_def

text \<open>
  Every exchange of the session layer returns when the delays overshoot by no more than
  \<open>2 ^ 31\<close> ms: its timeouts are at most 10 s.
\<close>

lemma session_exchange_returns:
  assumes "slack b \<le> 2 ^ 31" and "unat d \<le> 10000"
  shows "\<exists>r b'. ESP8266_SendCommandF e d f b = Some (r, b') \<and> slack b' = slack b"
  using assms by (intro SendCommandF_total) simp_all

subsection \<open>Publishing without a connection\<close>

text \<open>
  Claim C1 on the code: the session is not connected; the co-processor grants the raw
  publish and acknowledges it. \<open>MQTT_Publish\<close> sends the command and the payload and
  returns \<open>MQTT_OK\<close>. \<open>MQTT_PublishData\<close>, which has kept the check, returns
  \<open>MQTT_NOT_CONNECTED\<close> on the same session and sends nothing.
\<close>

theorem publish_ignores_connected:
  "map_option (\<lambda>(st, g). (st, connected (mqtt g), wire (esp8266 g)))
     (MQTT_Publish (Some ''t'') (Some ''m'') MQTT_QOS_0 0
        (fresh\<lparr>mqtt := zero_handle\<lparr>initialized := True\<rparr>,
               esp8266 := idle_board\<lparr>irqs := [(1, TxCplt), (5, RxEvent ''>''),
                                               (14, TxCplt), (20, RxEvent ''+MQTTPUB:OK'')]\<rparr>\<rparr>))
   = Some (MQTT_OK, False, [''AT+MQTTPUBRAW=0,'' @ quoted ''t'' @ '',1,0,0'' @ CRLF, ''m''])
   \<and> map_option (\<lambda>(st, g). (st, wire (esp8266 g)))
     (MQTT_PublishData (Some ''t'') (Some ''m'') 1 MQTT_QOS_0 0
        (fresh\<lparr>mqtt := zero_handle\<lparr>initialized := True\<rparr>,
               esp8266 := idle_board\<lparr>irqs := [(1, TxCplt), (5, RxEvent ''>''),
                                               (14, TxCplt), (20, RxEvent ''+MQTTPUB:OK'')]\<rparr>\<rparr>))
   = Some (MQTT_NOT_CONNECTED, [])"
  by (simp add: board_eval mqtt_eval cong: let_weak_cong bind_weak_cong)

subsection \<open>Disconnecting\<close>

text \<open>
  Claim C10: on an initialised session \<open>MQTT_Disconnect\<close> returns, and whatever the
  exchange gave (\<open>MQTT_OK\<close> is returned exactly when it gave \<open>ESP8266_OK\<close>) the session
  is left not connected, in state \<open>MQTT_STATE_DISCONNECTED\<close>, with a zeroed subscription
  table and a count of 0, and \<open>onDisconnected\<close> has been called if it is registered.
\<close>

theorem disconnect_unconditional:
  assumes "initialized (mqtt g)" and "slack (esp8266 g) \<le> 2 ^ 31"
  shows "\<exists>ret b. ESP8266_SendCommandF (Some ''OK'') MQTT_DEFAULT_TIMEOUT
                    (''AT+MQTTCLEAN='' @ fmt_d MQTT_LINK_ID @ CRLF) (esp8266 g) = Some (ret, b)
     \<and> MQTT_Disconnect g
         = Some (if ret = ESP8266_OK then MQTT_OK else MQTT_ERROR,
                 \<lparr>mqtt = (mqtt g)\<lparr>connected := False,
                                  state := state_val MQTT_STATE_DISCONNECTED,
                                  subscriptions := replicate MQTT_MAX_SUBSCRIPTIONS zero_sub,
                                  subscriptionCount := 0\<rparr>,
                  esp8266 = b,
                  fired = (if onDisconnected (mqtt g) then fired g @ [OnDisconnected]
                           else fired g)\<rparr>)"
proof -
  have "\<exists>ret b. ESP8266_SendCommandF (Some ''OK'') MQTT_DEFAULT_TIMEOUT
                    (''AT+MQTTCLEAN='' @ fmt_d MQTT_LINK_ID @ CRLF) (esp8266 g) = Some (ret, b)
                  \<and> slack b = slack (esp8266 g)"
    using assms(2) by (intro session_exchange_returns) (simp_all add: MQTT_DEFAULT_TIMEOUT_def)
  then obtain ret b where "ESP8266_SendCommandF (Some ''OK'') MQTT_DEFAULT_TIMEOUT
                    (''AT+MQTTCLEAN='' @ fmt_d MQTT_LINK_ID @ CRLF) (esp8266 g) = Some (ret, b)"
    by blast
  with assms(1) show ?thesis
    by (simp add: MQTT_Disconnect_def call_def)
qed

text \<open>
  The co-processor does not answer: the exchange times out and \<open>MQTT_Disconnect\<close> returns
  \<open>MQTT_ERROR\<close>, yet the session, which was connected and held a subscription, is reset
  and the callback is called.
\<close>

theorem disconnect_unconditional_witness:
  "initialized (mqtt (fresh\<lparr>mqtt := zero_handle\<lparr>initialized := True, connected := True, state := 6,
        onDisconnected := True,
        subscriptions := \<lparr>topic = ''a'', qos = MQTT_QOS_1, active = True\<rparr> # replicate 7 zero_sub,
        subscriptionCount := 1\<rparr>,
      esp8266 := idle_board\<lparr>slack := 2990, irqs := [(1, TxCplt)]\<rparr>\<rparr>))
   \<and> slack (esp8266 (fresh\<lparr>mqtt := zero_handle\<lparr>initialized := True, connected := True, state := 6,
        onDisconnected := True,
        subscriptions := \<lparr>topic = ''a'', qos = MQTT_QOS_1, active = True\<rparr> # replicate 7 zero_sub,
        subscriptionCount := 1\<rparr>,
      esp8266 := idle_board\<lparr>slack := 2990, irqs := [(1, TxCplt)]\<rparr>\<rparr>)) \<le> 2 ^ 31
   \<and> MQTT_Disconnect (fresh\<lparr>mqtt := zero_handle\<lparr>initialized := True, connected := True, state := 6,
        onDisconnected := True,
        subscriptions := \<lparr>topic = ''a'', qos = MQTT_QOS_1, active = True\<rparr> # replicate 7 zero_sub,
        subscriptionCount := 1\<rparr>,
      esp8266 := idle_board\<lparr>slack := 2990, irqs := [(1, TxCplt)]\<rparr>\<rparr>)
     = Some (MQTT_ERROR,
         fresh\<lparr>mqtt := zero_handle\<lparr>initialized := True, state := 3, onDisconnected := True\<rparr>,
               esp8266 := idle_board\<lparr>slack := 2990, tick := 5991,
                  txBuffer := ''AT+MQTTCLEAN=0'' @ CRLF, wire := [''AT+MQTTCLEAN=0'' @ CRLF]\<rparr>,
               fired := [OnDisconnected]\<rparr>)"
  using disconnect_unconditional [of "fresh\<lparr>mqtt := zero_handle\<lparr>initialized := True, connected := True, state := 6,
        onDisconnected := True,
        subscriptions := \<lparr>topic = ''a'', qos = MQTT_QOS_1, active = True\<rparr> # replicate 7 zero_sub,
        subscriptionCount := 1\<rparr>,
      esp8266 := idle_board\<lparr>slack := 2990, irqs := [(1, TxCplt)]\<rparr>\<rparr>"]
  by (simp add: board_eval mqtt_eval cong: let_weak_cong bind_weak_cong)

subsection \<open>The subscription table\<close>

text \<open>
  What the loops of \<open>MQTT_AddSubscription\<close> and \<open>MQTT_RemoveSubscription\<close> do to the table
  and to the number of its active entries.
\<close>

lemma remove_first_absent:
  "\<forall>s \<in> set subs. \<not> (active s \<and> topic s = t) \<Longrightarrow> remove_first t subs = None"
  by (induction subs) auto

lemma update_existing_absent:
  "\<forall>s \<in> set subs. \<not> (active s \<and> topic s = t) \<Longrightarrow> update_existing t q subs = None"
  by (induction subs) auto

lemma update_existing_present:
  "\<exists>s \<in> set subs. active s \<and> topic s = t \<Longrightarrow>
   \<exists>i < length subs. active (subs ! i) \<and> topic (subs ! i) = t
      \<and> (\<forall>j < i. \<not> (active (subs ! j) \<and> topic (subs ! j) = t))
      \<and> update_existing t q subs = Some (subs[i := (subs ! i)\<lparr>qos := q\<rparr>])"
proof (induction subs)
  case Nil
  then show ?case by simp
next
  case (Cons s subs)
  show ?case
  proof (cases "active s \<and> topic s = t")
    case True
    then show ?thesis by (intro exI [of _ 0]) simp
  next
    case False
    with Cons.prems have "\<exists>s \<in> set subs. active s \<and> topic s = t" by auto
    from Cons.IH [OF this] obtain i where i: "i < length subs"
      "active (subs ! i) \<and> topic (subs ! i) = t"
      "\<forall>j < i. \<not> (active (subs ! j) \<and> topic (subs ! j) = t)"
      "update_existing t q subs = Some (subs[i := (subs ! i)\<lparr>qos := q\<rparr>])"
      by blast
    have "\<forall>j < Suc i. \<not> (active ((s # subs) ! j) \<and> topic ((s # subs) ! j) = t)"
      using False i(3) by (auto simp: less_Suc_eq_0_disj)
    with False i show ?thesis by (intro exI [of _ "Suc i"]) auto
  qed
qed

lemma update_existing_shape:
  "update_existing t q subs = Some subs' \<Longrightarrow>
   length subs' = length subs \<and> length (filter active subs') = length (filter active subs)"
  by (induction subs arbitrary: subs') (auto split: if_splits)

lemma add_new_shape:
  "add_new t q subs = Some subs' \<Longrightarrow>
   length subs' = length subs \<and> length (filter active subs') = Suc (length (filter active subs))"
  by (induction subs arbitrary: subs') (auto split: if_splits)

lemma remove_first_shape:
  "remove_first t subs = Some subs' \<Longrightarrow>
   length subs' = length subs \<and> Suc (length (filter active subs')) = length (filter active subs)"
  by (induction subs arbitrary: subs') (auto simp: zero_sub_def split: if_splits)

subsection \<open>Unsubscribing from a topic that is not in the table\<close>

text \<open>
  Claim C9: the session is initialised and connected and no active entry of the table
  has the topic \<open>t\<close>. When the exchange of \<open>MQTT_Unsubscribe\<close> succeeds the call returns
  \<open>MQTT_OK\<close> and leaves the whole session handle, so the table and the count, as it was;
  only the board has moved on and \<open>onUnsubscribed\<close> has been called if it is registered.
\<close>

theorem unsubscribe_absent_is_noop:
  assumes "initialized (mqtt g)" and "connected (mqtt g)"
    and "\<forall>s \<in> set (subscriptions (mqtt g)). \<not> (active s \<and> topic s = t)"
    and "ESP8266_SendCommandF (Some ''OK'') MQTT_DEFAULT_TIMEOUT
           (''AT+MQTTUNSUB='' @ fmt_d MQTT_LINK_ID @ '','' @ quoted t @ CRLF) (esp8266 g)
         = Some (ESP8266_OK, b)"
  shows "MQTT_Unsubscribe (Some t) g
         = Some (MQTT_OK,
             \<lparr>mqtt = mqtt g, esp8266 = b,
              fired = (if onUnsubscribed (mqtt g) then fired g @ [OnUnsubscribed t] else fired g)\<rparr>)"
  using assms
  by (simp add: MQTT_Unsubscribe_def MQTT_RemoveSubscription_def remove_first_absent call_def)

theorem unsubscribe_absent_is_noop_witness:
  "initialized (mqtt (fresh\<lparr>mqtt := zero_handle\<lparr>initialized := True, connected := True, state := 6,
        subscriptions := \<lparr>topic = ''a'', qos = MQTT_QOS_1, active = True\<rparr> # replicate 7 zero_sub,
        subscriptionCount := 1\<rparr>,
      esp8266 := idle_board\<lparr>irqs := [(1, TxCplt), (5, RxEvent (''OK'' @ CRLF))]\<rparr>\<rparr>))
   \<and> connected (mqtt (fresh\<lparr>mqtt := zero_handle\<lparr>initialized := True, connected := True, state := 6,
        subscriptions := \<lparr>topic = ''a'', qos = MQTT_QOS_1, active = True\<rparr> # replicate 7 zero_sub,
        subscriptionCount := 1\<rparr>,
      esp8266 := idle_board\<lparr>irqs := [(1, TxCplt), (5, RxEvent (''OK'' @ CRLF))]\<rparr>\<rparr>))
   \<and> MQTT_Unsubscribe (Some ''b'')
        (fresh\<lparr>mqtt := zero_handle\<lparr>initialized := True, connected := True, state := 6,
            subscriptions := \<lparr>topic = ''a'', qos = MQTT_QOS_1, active = True\<rparr> # replicate 7 zero_sub,
            subscriptionCount := 1\<rparr>,
          esp8266 := idle_board\<lparr>irqs := [(1, TxCplt), (5, RxEvent (''OK'' @ CRLF))]\<rparr>\<rparr>)
     = Some (MQTT_OK,
         fresh\<lparr>mqtt := zero_handle\<lparr>initialized := True, connected := True, state := 6,
            subscriptions := \<lparr>topic = ''a'', qos = MQTT_QOS_1, active = True\<rparr> # replicate 7 zero_sub,
            subscriptionCount := 1\<rparr>,
          esp8266 := idle_board\<lparr>rxBuffer := ''OK'' @ CRLF @ [NUL], rxLength := 4, rxComplete := True,
            txBuffer := ''AT+MQTTUNSUB=0,'' @ quoted ''b'' @ CRLF, tick := 13,
            wire := [''AT+MQTTUNSUB=0,'' @ quoted ''b'' @ CRLF]\<rparr>\<rparr>)"
  using unsubscribe_absent_is_noop [of
      "fresh\<lparr>mqtt := zero_handle\<lparr>initialized := True, connected := True, state := 6,
            subscriptions := \<lparr>topic = ''a'', qos = MQTT_QOS_1, active = True\<rparr> # replicate 7 zero_sub,
            subscriptionCount := 1\<rparr>,
          esp8266 := idle_board\<lparr>irqs := [(1, TxCplt), (5, RxEvent (''OK'' @ CRLF))]\<rparr>\<rparr>"
      "''b''"
      "idle_board\<lparr>rxBuffer := ''OK'' @ CRLF @ [NUL], rxLength := 4, rxComplete := True,
            txBuffer := ''AT+MQTTUNSUB=0,'' @ quoted ''b'' @ CRLF, tick := 13,
            wire := [''AT+MQTTUNSUB=0,'' @ quoted ''b'' @ CRLF]\<rparr>"]
  by (simp add: board_eval mqtt_eval cong: let_weak_cong bind_weak_cong)

subsection \<open>The table stays consistent\<close>

lemma table_consistent_zero: "table_consistent zero_handle"
  by (simp add: table_consistent_def zero_handle_def zero_sub_def)

lemma table_consistent_cong:
  "subscriptions h' = subscriptions h \<Longrightarrow> subscriptionCount h' = subscriptionCount h \<Longrightarrow>
   table_consistent h' = table_consistent h"
  by (simp add: table_consistent_def)

lemma AddSubscription_consistent:
  assumes "table_consistent h"
  shows "table_consistent (MQTT_AddSubscription t q h)"
proof (cases "update_existing t q (subscriptions h)")
  case (Some subs)
  with assms update_existing_shape [OF Some] show ?thesis
    by (simp add: MQTT_AddSubscription_def table_consistent_def)
next
  case None
  show ?thesis
  proof (cases "add_new t q (subscriptions h)")
    case none: None
    with None assms show ?thesis by (simp add: MQTT_AddSubscription_def)
  next
    case (Some subs)
    from add_new_shape [OF Some] assms
    have len: "length subs = MQTT_MAX_SUBSCRIPTIONS"
      and cnt: "length (filter active subs) = Suc (unat (subscriptionCount h))"
      by (simp_all add: table_consistent_def)
    have "length (filter active subs) \<le> length subs" by (rule length_filter_le)
    with len cnt have "unat (subscriptionCount h) < 8"
      by (simp add: MQTT_MAX_SUBSCRIPTIONS_def)
    then have "unat (subscriptionCount h + 1) = Suc (unat (subscriptionCount h))"
      by (simp add: unat_word_ariths)
    with None Some len cnt show ?thesis
      by (simp add: MQTT_AddSubscription_def table_consistent_def)
  qed
qed

lemma RemoveSubscription_consistent:
  assumes "table_consistent h"
  shows "table_consistent (MQTT_RemoveSubscription t h)"
proof (cases "remove_first t (subscriptions h)")
  case None
  with assms show ?thesis by (simp add: MQTT_RemoveSubscription_def)
next
  case (Some subs)
  from remove_first_shape [OF Some] assms
  have len: "length subs = MQTT_MAX_SUBSCRIPTIONS"
    and cnt: "Suc (length (filter active subs)) = unat (subscriptionCount h)"
    by (simp_all add: table_consistent_def)
  then have "subscriptionCount h \<noteq> 0"
    by (metis Zero_not_Suc unat_0)
  then have "unat (subscriptionCount h - 1) = unat (subscriptionCount h) - 1"
    by (rule unat_minus_one)
  with Some len cnt show ?thesis
    by (simp add: MQTT_RemoveSubscription_def table_consistent_def)
qed

lemma call_mqtt [simp]: "mqtt (call slot cb g) = mqtt g"
  by (simp add: call_def)

lemma call_esp8266 [simp]: "esp8266 (call slot cb g) = esp8266 g"
  by (simp add: call_def)

lemma Connect_table:
  "MQTT_Connect g = Some (r, g') \<Longrightarrow>
   subscriptions (mqtt g') = subscriptions (mqtt g)
   \<and> subscriptionCount (mqtt g') = subscriptionCount (mqtt g)"
  by (auto simp: MQTT_Connect_def split: Option.bind_splits if_splits)

lemma Clean_table:
  "MQTT_Clean g = Some (r, g') \<Longrightarrow>
   subscriptions (mqtt g') = subscriptions (mqtt g)
   \<and> subscriptionCount (mqtt g') = subscriptionCount (mqtt g)"
  by (auto simp: MQTT_Clean_def split: Option.bind_splits if_splits)

lemma Disconnect_consistent:
  "MQTT_Disconnect g = Some (r, g') \<Longrightarrow> table_consistent (mqtt g) \<Longrightarrow> table_consistent (mqtt g')"
  by (auto simp: MQTT_Disconnect_def table_consistent_def zero_sub_def
           split: Option.bind_splits if_splits)

lemma Subscribe_consistent:
  "MQTT_Subscribe tp q g = Some (r, g') \<Longrightarrow> table_consistent (mqtt g) \<Longrightarrow> table_consistent (mqtt g')"
  using AddSubscription_consistent
  by (auto simp: MQTT_Subscribe_def table_consistent_def
           split: Option.bind_splits if_splits option.splits)

lemma Unsubscribe_consistent:
  "MQTT_Unsubscribe tp g = Some (r, g') \<Longrightarrow> table_consistent (mqtt g) \<Longrightarrow> table_consistent (mqtt g')"
  using RemoveSubscription_consistent
  by (auto simp: MQTT_Unsubscribe_def split: Option.bind_splits if_splits option.splits)

lemma Publish_table:
  "MQTT_Publish tp m q rt g = Some (r, g') \<Longrightarrow>
   subscriptions (mqtt g') = subscriptions (mqtt g)
   \<and> subscriptionCount (mqtt g') = subscriptionCount (mqtt g)"
  by (auto simp: MQTT_Publish_def Let_def
           split: Option.bind_splits if_splits option.splits)

lemma PublishRaw_table:
  "MQTT_PublishRaw tp d n q rt g = Some (r, g') \<Longrightarrow>
   subscriptions (mqtt g') = subscriptions (mqtt g)
   \<and> subscriptionCount (mqtt g') = subscriptionCount (mqtt g)"
  by (auto simp: MQTT_PublishRaw_def
           split: Option.bind_splits if_splits option.splits)

lemma PublishData_table:
  "MQTT_PublishData tp d n q rt g = Some (r, g') \<Longrightarrow>
   subscriptions (mqtt g') = subscriptions (mqtt g)
   \<and> subscriptionCount (mqtt g') = subscriptionCount (mqtt g)"
  using Publish_table PublishRaw_table
  by (auto simp: MQTT_PublishData_def split: if_splits option.splits)

lemma QueryConnection_table:
  "MQTT_QueryConnection g = Some (r, g') \<Longrightarrow>
   subscriptions (mqtt g') = subscriptions (mqtt g)
   \<and> subscriptionCount (mqtt g') = subscriptionCount (mqtt g)"
  by (auto simp: MQTT_QueryConnection_def Let_def
           split: Option.bind_splits if_splits option.splits)

lemma ParseSubMessage_table:
  "subscriptions (mqtt (snd (MQTT_ParseSubMessage d g))) = subscriptions (mqtt g)
   \<and> subscriptionCount (mqtt (snd (MQTT_ParseSubMessage d g))) = subscriptionCount (mqtt g)"
  by (simp add: MQTT_ParseSubMessage_def Let_def split: option.splits prod.splits)

lemma ProcessData_table:
  "subscriptions (mqtt (MQTT_ProcessData g)) = subscriptions (mqtt g)
   \<and> subscriptionCount (mqtt (MQTT_ProcessData g)) = subscriptionCount (mqtt g)"
  by (simp add: MQTT_ProcessData_def Let_def ParseSubMessage_table)

lemma exec_consistent:
  assumes "exec c g = Some g'" and "table_consistent (mqtt g)"
  shows "table_consistent (mqtt g')"
proof (cases c)
  case Call_Init
  with assms show ?thesis
    by (auto simp: MQTT_Init_def table_consistent_def zero_handle_def zero_sub_def split: if_splits)
next
  case (Call_SetBroker h p r)
  with assms show ?thesis
    by (auto simp: MQTT_SetBroker_def table_consistent_def split: option.splits)
next
  case Call_Connect
  with assms Connect_table show ?thesis
    by (auto simp: table_consistent_def)
next
  case Call_Disconnect
  with assms Disconnect_consistent show ?thesis by auto
next
  case Call_Clean
  with assms Clean_table show ?thesis
    by (auto simp: table_consistent_def)
next
  case (Call_Subscribe t q)
  with assms Subscribe_consistent show ?thesis by auto
next
  case (Call_Unsubscribe t)
  with assms Unsubscribe_consistent show ?thesis by auto
next
  case (Call_Publish t m q r)
  with assms Publish_table show ?thesis
    by (auto simp: table_consistent_def)
next
  case (Call_PublishData t d n q r)
  with assms PublishData_table show ?thesis
    by (auto simp: table_consistent_def)
next
  case (Call_PublishRaw t d n q r)
  with assms PublishRaw_table show ?thesis
    by (auto simp: table_consistent_def)
next
  case Call_QueryConnection
  with assms QueryConnection_table show ?thesis
    by (auto simp: table_consistent_def)
next
  case Call_ProcessData
  with assms ProcessData_table [of g] show ?thesis
    by (auto simp: table_consistent_def)
qed (use assms in \<open>auto simp: table_consistent_def MQTT_SetOnConnected_def MQTT_SetOnDisconnected_def
       MQTT_SetOnMessageReceived_def MQTT_SetOnSubscribed_def MQTT_SetOnUnsubscribed_def\<close>)

lemma run_consistent:
  "run cs g = Some g' \<Longrightarrow> table_consistent (mqtt g) \<Longrightarrow> table_consistent (mqtt g')"
proof (induction cs arbitrary: g)
  case Nil
  then show ?case by simp
next
  case (Cons c cs)
  then show ?case
    by (auto split: option.splits dest: exec_consistent)
qed

subsection \<open>Subscribing twice, and the capacity of the table\<close>

lemma replicate_numeral_eq: "replicate (numeral k) x = x # replicate (pred_numeral k) x"
  by (simp add: numeral_eq_Suc)

lemma update_existing_result:
  "update_existing t q subs = Some subs' \<Longrightarrow> \<exists>s \<in> set subs'. active s \<and> topic s = t \<and> qos s = q"
  by (induction subs arbitrary: subs') (auto split: if_splits)

lemma add_new_result:
  "add_new t q subs = Some subs' \<Longrightarrow>
   \<exists>s \<in> set subs'. active s \<and> topic s = take (MQTT_TOPIC_MAX_LEN - 1) t \<and> qos s = q"
  by (induction subs arbitrary: subs') (auto split: if_splits)

lemma add_new_free:
  "\<exists>s \<in> set subs. \<not> active s \<Longrightarrow> \<exists>subs'. add_new t q subs = Some subs'"
  by (induction subs) auto

lemma free_entry:
  assumes "table_consistent h" and "unat (subscriptionCount h) < MQTT_MAX_SUBSCRIPTIONS"
  shows "\<exists>s \<in> set (subscriptions h). \<not> active s"
proof (rule ccontr)
  assume "\<not> (\<exists>s \<in> set (subscriptions h). \<not> active s)"
  then have "filter active (subscriptions h) = subscriptions h" by (simp add: filter_id_conv)
  with assms show False by (simp add: table_consistent_def)
qed

lemma AddSubscription_present:
  assumes "table_consistent h" and "unat (subscriptionCount h) < MQTT_MAX_SUBSCRIPTIONS"
    and "length t < MQTT_TOPIC_MAX_LEN"
  shows "\<exists>s \<in> set (subscriptions (MQTT_AddSubscription t q h)). active s \<and> topic s = t \<and> qos s = q"
proof (cases "update_existing t q (subscriptions h)")
  case (Some subs)
  with update_existing_result [OF Some] show ?thesis
    by (simp add: MQTT_AddSubscription_def)
next
  case None
  from add_new_free [OF free_entry [OF assms(1,2)], of t q]
  obtain subs where subs: "add_new t q (subscriptions h) = Some subs" by blast
  from add_new_result [OF subs] assms(3) None subs show ?thesis
    by (simp add: MQTT_AddSubscription_def)
qed

lemma Subscribe_OK:
  assumes "MQTT_Subscribe (Some t) q g = Some (MQTT_OK, g')"
  shows "mqtt g' = (MQTT_AddSubscription t q (mqtt g))\<lparr>state := state_val MQTT_STATE_CONN_WITH_SUB\<rparr>"
    and "unat (subscriptionCount (mqtt g)) < MQTT_MAX_SUBSCRIPTIONS"
  using assms by (auto simp: MQTT_Subscribe_def split: Option.bind_splits if_splits)

lemma AddSubscription_count:
  assumes "table_consistent h" and "unat (subscriptionCount h) < MQTT_MAX_SUBSCRIPTIONS"
  shows "length (filter active (subscriptions (MQTT_AddSubscription t q h)))
         = (if \<exists>s \<in> set (subscriptions h). active s \<and> topic s = t
            then length (filter active (subscriptions h))
            else Suc (length (filter active (subscriptions h))))"
proof (cases "\<exists>s \<in> set (subscriptions h). active s \<and> topic s = t")
  case True
  from update_existing_present [OF True, of q]
  obtain subs where subs: "update_existing t q (subscriptions h) = Some subs" by blast
  from update_existing_shape [OF subs] subs True show ?thesis
    by (simp add: MQTT_AddSubscription_def)
next
  case False
  then have none: "update_existing t q (subscriptions h) = None"
    by (intro update_existing_absent) blast
  from add_new_free [OF free_entry [OF assms], of t q]
  obtain subs where subs: "add_new t q (subscriptions h) = Some subs" by blast
  from add_new_shape [OF subs] none subs False show ?thesis
    by (simp add: MQTT_AddSubscription_def)
qed

text \<open>
  Claim C3, as stated, fails for a topic of \<open>MQTT_TOPIC_MAX_LEN\<close> characters or more.
  \<open>MQTT_AddSubscription\<close> stores the first \<open>MQTT_TOPIC_MAX_LEN - 1\<close> characters of a new
  topic and compares the stored topics with the whole topic of the call, so such a
  topic is never found again. A program that connects and subscribes twice to the
  same topic of 128 characters, the co-processor answering \<open>OK\<close> each time, ends with
  two entries, and the first of them keeps its QoS.
\<close>

theorem subscribe_long_topic_twice_counterexample:
  "map_option (\<lambda>g. (MQTT_GetSubscriptions g, subscriptionCount (mqtt g)))
       (run [Call_Init, Call_Connect,
             Call_Subscribe (Some (replicate 128 CHR ''a'')) MQTT_QOS_0,
             Call_Subscribe (Some (replicate 128 CHR ''a'')) MQTT_QOS_2]
          (fresh\<lparr>esp8266 := idle_board\<lparr>irqs := [(1, TxCplt), (5, RxEvent ''OK''),
             (14, TxCplt), (20, RxEvent ''OK''), (27, TxCplt), (30, RxEvent ''OK'')]\<rparr>\<rparr>))
     = Some (([\<lparr>topic = replicate 127 CHR ''a'', qos = MQTT_QOS_0, active = True\<rparr>,
               \<lparr>topic = replicate 127 CHR ''a'', qos = MQTT_QOS_2, active = True\<rparr>], 2), 2)"
  by (simp add: board_eval mqtt_eval replicate_numeral_eq
        cong: let_weak_cong bind_weak_cong)

text \<open>
  Claim C3, amended: the topic is shorter than \<open>MQTT_TOPIC_MAX_LEN\<close>, which is 128. In
  six parts.
  \<^item> In every state that a program reaches from reset the table is consistent, and so
    neither the number of active entries (what \<open>MQTT_GetSubscriptions\<close> counts) nor
    \<open>subscriptionCount\<close> exceeds \<open>MQTT_MAX_SUBSCRIPTIONS\<close>, which is 8.
  \<^item> On an initialised and connected session whose consistent table holds 8 active
    entries, \<open>MQTT_Subscribe\<close> returns \<open>MQTT_BUFFER_FULL\<close> and changes nothing.
  \<^item> When an active entry has the topic \<open>t\<close> and \<open>MQTT_Subscribe\<close> of \<open>t\<close> returns \<open>MQTT_OK\<close>, the
    table after the call is the table before it with the QoS of the first such entry
    replaced: no entry is added and the count is as before.
  \<^item> The topic is in the table after a first successful \<open>MQTT_Subscribe\<close>, when it is
    shorter than \<open>MQTT_TOPIC_MAX_LEN\<close>.
  \<^item> Hence two successful calls of \<open>MQTT_Subscribe\<close> for the same topic, shorter than
    \<open>MQTT_TOPIC_MAX_LEN\<close>, one after the other: the second call replaces the QoS of the
    first entry with that topic in the table that the first call left, and neither
    the table's other entries, nor \<open>subscriptionCount\<close>, nor the number of active
    entries change.
  \<^item> On an initialised and connected session whose consistent table holds fewer than 8
    active entries, \<open>MQTT_Subscribe\<close> returns \<open>MQTT_OK\<close> whenever its exchange with the
    co-processor does; the table is consistent afterwards and has one more active
    entry, or as many as before when an active entry had the topic already.
\<close>

theorem subscribe_twice_and_capacity:
  "(at_reset g0 \<and> run cs g0 = Some g1 \<longrightarrow>
      table_consistent (mqtt g1)
      \<and> snd (MQTT_GetSubscriptions g1) \<le> MQTT_MAX_SUBSCRIPTIONS
      \<and> unat (subscriptionCount (mqtt g1)) \<le> MQTT_MAX_SUBSCRIPTIONS)
   \<and> (initialized (mqtt gf) \<and> connected (mqtt gf) \<and> table_consistent (mqtt gf)
        \<and> snd (MQTT_GetSubscriptions gf) = MQTT_MAX_SUBSCRIPTIONS \<longrightarrow>
      MQTT_Subscribe (Some t) q gf = Some (MQTT_BUFFER_FULL, gf))
   \<and> ((\<exists>s \<in> set (subscriptions (mqtt g)). active s \<and> topic s = t)
        \<and> MQTT_Subscribe (Some t) q g = Some (MQTT_OK, g') \<longrightarrow>
      (\<exists>i < length (subscriptions (mqtt g)).
          active (subscriptions (mqtt g) ! i) \<and> topic (subscriptions (mqtt g) ! i) = t
          \<and> subscriptions (mqtt g')
              = (subscriptions (mqtt g))[i := (subscriptions (mqtt g) ! i)\<lparr>qos := q\<rparr>]
          \<and> subscriptionCount (mqtt g') = subscriptionCount (mqtt g)))
   \<and> (table_consistent (mqtt g) \<and> length t < MQTT_TOPIC_MAX_LEN
        \<and> MQTT_Subscribe (Some t) q g = Some (MQTT_OK, g') \<longrightarrow>
      (\<exists>s \<in> set (subscriptions (mqtt g')). active s \<and> topic s = t \<and> qos s = q))
   \<and> (table_consistent (mqtt ga) \<and> length t < MQTT_TOPIC_MAX_LEN
        \<and> MQTT_Subscribe (Some t) qa ga = Some (MQTT_OK, gb)
        \<and> MQTT_Subscribe (Some t) qb gb = Some (MQTT_OK, gc) \<longrightarrow>
      (\<exists>i < length (subscriptions (mqtt gb)).
          active (subscriptions (mqtt gb) ! i) \<and> topic (subscriptions (mqtt gb) ! i) = t
          \<and> (\<forall>j < i. \<not> (active (subscriptions (mqtt gb) ! j)
                          \<and> topic (subscriptions (mqtt gb) ! j) = t))
          \<and> subscriptions (mqtt gc)
              = (subscriptions (mqtt gb))[i := (subscriptions (mqtt gb) ! i)\<lparr>qos := qb\<rparr>]
          \<and> subscriptionCount (mqtt gc) = subscriptionCount (mqtt gb)
          \<and> snd (MQTT_GetSubscriptions gc) = snd (MQTT_GetSubscriptions gb)))
   \<and> (initialized (mqtt g) \<and> connected (mqtt g) \<and> table_consistent (mqtt g)
        \<and> snd (MQTT_GetSubscriptions g) < MQTT_MAX_SUBSCRIPTIONS
        \<and> ESP8266_SendCommandF (Some ''OK'') MQTT_SUBSCRIBE_TIMEOUT
            (''AT+MQTTSUB='' @ fmt_d MQTT_LINK_ID @ '','' @ quoted t @ '','' @ fmt_d (qos_val q) @ CRLF)
            (esp8266 g) = Some (ESP8266_OK, b) \<longrightarrow>
      (\<exists>gd. MQTT_Subscribe (Some t) q g = Some (MQTT_OK, gd)
          \<and> table_consistent (mqtt gd)
          \<and> snd (MQTT_GetSubscriptions gd)
              = (if \<exists>s \<in> set (subscriptions (mqtt g)). active s \<and> topic s = t
                 then snd (MQTT_GetSubscriptions g)
                 else Suc (snd (MQTT_GetSubscriptions g)))))"
proof (intro conjI impI)
  assume reach: "at_reset g0 \<and> run cs g0 = Some g1"
  then have "table_consistent (mqtt g0)"
    by (simp add: at_reset_def table_consistent_zero)
  with reach show ok: "table_consistent (mqtt g1)"
    by (blast intro: run_consistent)
  have "length (filter active (subscriptions (mqtt g1))) \<le> length (subscriptions (mqtt g1))"
    by (rule length_filter_le)
  with ok show "snd (MQTT_GetSubscriptions g1) \<le> MQTT_MAX_SUBSCRIPTIONS"
    and "unat (subscriptionCount (mqtt g1)) \<le> MQTT_MAX_SUBSCRIPTIONS"
    by (simp_all add: MQTT_GetSubscriptions_def table_consistent_def Let_def)
next
  assume "initialized (mqtt gf) \<and> connected (mqtt gf) \<and> table_consistent (mqtt gf)
        \<and> snd (MQTT_GetSubscriptions gf) = MQTT_MAX_SUBSCRIPTIONS"
  then show "MQTT_Subscribe (Some t) q gf = Some (MQTT_BUFFER_FULL, gf)"
    by (simp add: MQTT_Subscribe_def MQTT_GetSubscriptions_def table_consistent_def Let_def)
next
  assume a: "(\<exists>s \<in> set (subscriptions (mqtt g)). active s \<and> topic s = t)
        \<and> MQTT_Subscribe (Some t) q g = Some (MQTT_OK, g')"
  from update_existing_present [of "subscriptions (mqtt g)" t q] a
  obtain i where i: "i < length (subscriptions (mqtt g))"
    "active (subscriptions (mqtt g) ! i) \<and> topic (subscriptions (mqtt g) ! i) = t"
    "update_existing t q (subscriptions (mqtt g))
       = Some ((subscriptions (mqtt g))[i := (subscriptions (mqtt g) ! i)\<lparr>qos := q\<rparr>])"
    by blast
  from a have "MQTT_Subscribe (Some t) q g = Some (MQTT_OK, g')" by simp
  then have "mqtt g' = (MQTT_AddSubscription t q (mqtt g))\<lparr>state := state_val MQTT_STATE_CONN_WITH_SUB\<rparr>"
    by (rule Subscribe_OK)
  with i show "\<exists>i < length (subscriptions (mqtt g)).
          active (subscriptions (mqtt g) ! i) \<and> topic (subscriptions (mqtt g) ! i) = t
          \<and> subscriptions (mqtt g')
              = (subscriptions (mqtt g))[i := (subscriptions (mqtt g) ! i)\<lparr>qos := q\<rparr>]
          \<and> subscriptionCount (mqtt g') = subscriptionCount (mqtt g)"
    by (intro exI [of _ i]) (simp add: MQTT_AddSubscription_def)
next
  assume a: "table_consistent (mqtt g) \<and> length t < MQTT_TOPIC_MAX_LEN
        \<and> MQTT_Subscribe (Some t) q g = Some (MQTT_OK, g')"
  then have sub: "MQTT_Subscribe (Some t) q g = Some (MQTT_OK, g')" by simp
  note g' = Subscribe_OK(1) [OF sub] and room = Subscribe_OK(2) [OF sub]
  from AddSubscription_present [of "mqtt g" t q] a room g'
  show "\<exists>s \<in> set (subscriptions (mqtt g')). active s \<and> topic s = t \<and> qos s = q"
    by simp
next
  assume a: "table_consistent (mqtt ga) \<and> length t < MQTT_TOPIC_MAX_LEN
        \<and> MQTT_Subscribe (Some t) qa ga = Some (MQTT_OK, gb)
        \<and> MQTT_Subscribe (Some t) qb gb = Some (MQTT_OK, gc)"
  then have first: "MQTT_Subscribe (Some t) qa ga = Some (MQTT_OK, gb)"
    and second: "MQTT_Subscribe (Some t) qb gb = Some (MQTT_OK, gc)"
    by simp_all
  from AddSubscription_present [of "mqtt ga" t qa] a Subscribe_OK [OF first]
  have "\<exists>s \<in> set (subscriptions (mqtt gb)). active s \<and> topic s = t \<and> qos s = qa"
    by simp
  then have present: "\<exists>s \<in> set (subscriptions (mqtt gb)). active s \<and> topic s = t"
    by blast
  from update_existing_present [OF present, of qb]
  obtain i where i: "i < length (subscriptions (mqtt gb))"
    "active (subscriptions (mqtt gb) ! i) \<and> topic (subscriptions (mqtt gb) ! i) = t"
    "\<forall>j < i. \<not> (active (subscriptions (mqtt gb) ! j) \<and> topic (subscriptions (mqtt gb) ! j) = t)"
    "update_existing t qb (subscriptions (mqtt gb))
       = Some ((subscriptions (mqtt gb))[i := (subscriptions (mqtt gb) ! i)\<lparr>qos := qb\<rparr>])"
    by blast
  from update_existing_shape [OF i(4)]
  have same: "length (filter active ((subscriptions (mqtt gb))[i := (subscriptions (mqtt gb) ! i)\<lparr>qos := qb\<rparr>]))
      = length (filter active (subscriptions (mqtt gb)))"
    by simp
  from i same Subscribe_OK(1) [OF second]
  show "\<exists>i < length (subscriptions (mqtt gb)).
          active (subscriptions (mqtt gb) ! i) \<and> topic (subscriptions (mqtt gb) ! i) = t
          \<and> (\<forall>j < i. \<not> (active (subscriptions (mqtt gb) ! j)
                          \<and> topic (subscriptions (mqtt gb) ! j) = t))
          \<and> subscriptions (mqtt gc)
              = (subscriptions (mqtt gb))[i := (subscriptions (mqtt gb) ! i)\<lparr>qos := qb\<rparr>]
          \<and> subscriptionCount (mqtt gc) = subscriptionCount (mqtt gb)
          \<and> snd (MQTT_GetSubscriptions gc) = snd (MQTT_GetSubscriptions gb)"
    by (intro exI [of _ i]) (simp add: MQTT_AddSubscription_def MQTT_GetSubscriptions_def Let_def)
next
  assume a: "initialized (mqtt g) \<and> connected (mqtt g) \<and> table_consistent (mqtt g)
        \<and> snd (MQTT_GetSubscriptions g) < MQTT_MAX_SUBSCRIPTIONS
        \<and> ESP8266_SendCommandF (Some ''OK'') MQTT_SUBSCRIBE_TIMEOUT
            (''AT+MQTTSUB='' @ fmt_d MQTT_LINK_ID @ '','' @ quoted t @ '','' @ fmt_d (qos_val q) @ CRLF)
            (esp8266 g) = Some (ESP8266_OK, b)"
  then have ok: "table_consistent (mqtt g)"
    and room: "unat (subscriptionCount (mqtt g)) < MQTT_MAX_SUBSCRIPTIONS"
    by (simp_all add: MQTT_GetSubscriptions_def table_consistent_def Let_def)
  define gd where "gd = call (onSubscribed (mqtt g)) (OnSubscribed t)
      (g\<lparr>esp8266 := b, mqtt := (MQTT_AddSubscription t q (mqtt g))\<lparr>state := state_val MQTT_STATE_CONN_WITH_SUB\<rparr>\<rparr>)"
  from a room have sub: "MQTT_Subscribe (Some t) q g = Some (MQTT_OK, gd)"
    by (simp add: MQTT_Subscribe_def gd_def)
  from Subscribe_consistent [OF sub ok] have ok': "table_consistent (mqtt gd)" .
  from AddSubscription_count [OF ok room, of t q]
  have "snd (MQTT_GetSubscriptions gd)
      = (if \<exists>s \<in> set (subscriptions (mqtt g)). active s \<and> topic s = t
         then snd (MQTT_GetSubscriptions g)
         else Suc (snd (MQTT_GetSubscriptions g)))"
    by (simp add: gd_def MQTT_GetSubscriptions_def Let_def)
  with sub ok' show "\<exists>gd. MQTT_Subscribe (Some t) q g = Some (MQTT_OK, gd)
          \<and> table_consistent (mqtt gd)
          \<and> snd (MQTT_GetSubscriptions gd)
              = (if \<exists>s \<in> set (subscriptions (mqtt g)). active s \<and> topic s = t
                 then snd (MQTT_GetSubscriptions g)
                 else Suc (snd (MQTT_GetSubscriptions g)))"
    by blast
qed

text \<open>
  A topic of 127 characters, the longest that the table holds whole, and a
  co-processor that answers \<open>OK\<close> each time. A program that connects and subscribes
  twice to the topic ends with one entry, which has the second QoS; so do two calls
  of \<open>MQTT_Subscribe\<close> on a connected session, and both return \<open>MQTT_OK\<close>. On a table of 8
  entries the call returns \<open>MQTT_BUFFER_FULL\<close>.
\<close>

theorem subscribe_twice_and_capacity_witness:
  "at_reset (fresh\<lparr>esp8266 := idle_board\<lparr>irqs := [(1, TxCplt), (5, RxEvent ''OK''),
        (14, TxCplt), (20, RxEvent ''OK''), (27, TxCplt), (30, RxEvent ''OK'')]\<rparr>\<rparr>)
   \<and> map_option (\<lambda>g. (MQTT_GetSubscriptions g, subscriptionCount (mqtt g), connected (mqtt g)))
       (run [Call_Init, Call_Connect,
             Call_Subscribe (Some (replicate 127 CHR ''a'')) MQTT_QOS_0,
             Call_Subscribe (Some (replicate 127 CHR ''a'')) MQTT_QOS_2]
          (fresh\<lparr>esp8266 := idle_board\<lparr>irqs := [(1, TxCplt), (5, RxEvent ''OK''),
        (14, TxCplt), (20, RxEvent ''OK''), (27, TxCplt), (30, RxEvent ''OK'')]\<rparr>\<rparr>))
     = Some (([\<lparr>topic = replicate 127 CHR ''a'', qos = MQTT_QOS_2, active = True\<rparr>], 1), 1, True)
   \<and> MQTT_Subscribe (Some (replicate 127 CHR ''a'')) MQTT_QOS_2
        (fresh\<lparr>mqtt := zero_handle\<lparr>initialized := True, connected := True,
           subscriptions := map (\<lambda>c. \<lparr>topic = [c], qos = MQTT_QOS_0, active = True\<rparr>) ''abcdefgh'',
           subscriptionCount := 8\<rparr>\<rparr>)
     = Some (MQTT_BUFFER_FULL,
        fresh\<lparr>mqtt := zero_handle\<lparr>initialized := True, connected := True,
           subscriptions := map (\<lambda>c. \<lparr>topic = [c], qos = MQTT_QOS_0, active = True\<rparr>) ''abcdefgh'',
           subscriptionCount := 8\<rparr>\<rparr>)
   \<and> length (replicate 127 CHR ''a'') < MQTT_TOPIC_MAX_LEN
   \<and> table_consistent (mqtt (fresh\<lparr>mqtt := zero_handle\<lparr>initialized := True, connected := True\<rparr>,
            esp8266 := idle_board\<lparr>irqs := [(1, TxCplt), (5, RxEvent ''OK''),
              (14, TxCplt), (20, RxEvent ''OK'')]\<rparr>\<rparr>))
   \<and> map_option (\<lambda>(r, g). (r, MQTT_GetSubscriptions g, subscriptionCount (mqtt g)))
        (MQTT_Subscribe (Some (replicate 127 CHR ''a'')) MQTT_QOS_0
          (fresh\<lparr>mqtt := zero_handle\<lparr>initialized := True, connected := True\<rparr>,
            esp8266 := idle_board\<lparr>irqs := [(1, TxCplt), (5, RxEvent ''OK''),
              (14, TxCplt), (20, RxEvent ''OK'')]\<rparr>\<rparr>))
     = Some (MQTT_OK, ([\<lparr>topic = replicate 127 CHR ''a'', qos = MQTT_QOS_0, active = True\<rparr>], 1), 1)
   \<and> map_option (\<lambda>(r, g). (r, MQTT_GetSubscriptions g, subscriptionCount (mqtt g)))
        (Option.bind (MQTT_Subscribe (Some (replicate 127 CHR ''a'')) MQTT_QOS_0
            (fresh\<lparr>mqtt := zero_handle\<lparr>initialized := True, connected := True\<rparr>,
            esp8266 := idle_board\<lparr>irqs := [(1, TxCplt), (5, RxEvent ''OK''),
              (14, TxCplt), (20, RxEvent ''OK'')]\<rparr>\<rparr>))
          (\<lambda>(r, g). MQTT_Subscribe (Some (replicate 127 CHR ''a'')) MQTT_QOS_2 g))
     = Some (MQTT_OK, ([\<lparr>topic = replicate 127 CHR ''a'', qos = MQTT_QOS_2, active = True\<rparr>], 1), 1)"
  using subscribe_twice_and_capacity [where
      ?g0.0 = "fresh\<lparr>esp8266 := idle_board\<lparr>irqs := [(1, TxCplt), (5, RxEvent ''OK''),
        (14, TxCplt), (20, RxEvent ''OK''), (27, TxCplt), (30, RxEvent ''OK'')]\<rparr>\<rparr>"
      and cs = "[Call_Init, Call_Connect,
             Call_Subscribe (Some (replicate 127 CHR ''a'')) MQTT_QOS_0,
             Call_Subscribe (Some (replicate 127 CHR ''a'')) MQTT_QOS_2]"
      and ?g1.0 = "fresh\<lparr>mqtt := zero_handle\<lparr>brokerConfig := \<lparr>host = [], port = 1883, reconnect = 1\<rparr>,
            initialized := True, connected := True,
            subscriptions := \<lparr>topic = replicate 127 CHR ''a'', qos = MQTT_QOS_2, active = True\<rparr>
              # replicate 7 zero_sub,
            subscriptionCount := 1, state := 6\<rparr>,
          esp8266 := idle_board\<lparr>rxBuffer := ''OK'' @ [NUL], rxLength := 2, rxComplete := True,
            txBuffer := ''AT+MQTTSUB=0,'' @ quoted (replicate 127 CHR ''a'') @ '',2'' @ CRLF,
            tick := 39, irqs := [],
            wire := [''AT+MQTTCONN=0,'' @ quoted [] @ '',1883,1'' @ CRLF,
              ''AT+MQTTSUB=0,'' @ quoted (replicate 127 CHR ''a'') @ '',0'' @ CRLF,
              ''AT+MQTTSUB=0,'' @ quoted (replicate 127 CHR ''a'') @ '',2'' @ CRLF]\<rparr>\<rparr>"
      and gf = "fresh\<lparr>mqtt := zero_handle\<lparr>initialized := True, connected := True,
           subscriptions := map (\<lambda>c. \<lparr>topic = [c], qos = MQTT_QOS_0, active = True\<rparr>) ''abcdefgh'',
           subscriptionCount := 8\<rparr>\<rparr>"
      and t = "replicate 127 CHR ''a''" and q = MQTT_QOS_2 and qa = MQTT_QOS_0 and qb = MQTT_QOS_2
      and ga = "fresh\<lparr>mqtt := zero_handle\<lparr>initialized := True, connected := True\<rparr>,
            esp8266 := idle_board\<lparr>irqs := [(1, TxCplt), (5, RxEvent ''OK''),
              (14, TxCplt), (20, RxEvent ''OK'')]\<rparr>\<rparr>"
      and gb = "fresh\<lparr>mqtt := zero_handle\<lparr>initialized := True, connected := True,
            subscriptions := \<lparr>topic = replicate 127 CHR ''a'', qos = MQTT_QOS_0, active = True\<rparr>
              # replicate 7 zero_sub,
            subscriptionCount := 1, state := 6\<rparr>,
          esp8266 := idle_board\<lparr>rxBuffer := ''OK'' @ [NUL], rxLength := 2, rxComplete := True,
            txBuffer := ''AT+MQTTSUB=0,'' @ quoted (replicate 127 CHR ''a'') @ '',0'' @ CRLF,
            tick := 13, irqs := [(14, TxCplt), (20, RxEvent ''OK'')],
            wire := [''AT+MQTTSUB=0,'' @ quoted (replicate 127 CHR ''a'') @ '',0'' @ CRLF]\<rparr>\<rparr>"
      and g = "fresh\<lparr>mqtt := zero_handle\<lparr>initialized := True, connected := True,
            subscriptions := \<lparr>topic = replicate 127 CHR ''a'', qos = MQTT_QOS_0, active = True\<rparr>
              # replicate 7 zero_sub,
            subscriptionCount := 1, state := 6\<rparr>,
          esp8266 := idle_board\<lparr>rxBuffer := ''OK'' @ [NUL], rxLength := 2, rxComplete := True,
            txBuffer := ''AT+MQTTSUB=0,'' @ quoted (replicate 127 CHR ''a'') @ '',0'' @ CRLF,
            tick := 13, irqs := [(14, TxCplt), (20, RxEvent ''OK'')],
            wire := [''AT+MQTTSUB=0,'' @ quoted (replicate 127 CHR ''a'') @ '',0'' @ CRLF]\<rparr>\<rparr>"
      and gc = "fresh\<lparr>mqtt := zero_handle\<lparr>initialized := True, connected := True,
            subscriptions := \<lparr>topic = replicate 127 CHR ''a'', qos = MQTT_QOS_2, active = True\<rparr>
              # replicate 7 zero_sub,
            subscriptionCount := 1, state := 6\<rparr>,
          esp8266 := idle_board\<lparr>rxBuffer := ''OK'' @ [NUL], rxLength := 2, rxComplete := True,
            txBuffer := ''AT+MQTTSUB=0,'' @ quoted (replicate 127 CHR ''a'') @ '',2'' @ CRLF,
            tick := 26, irqs := [],
            wire := [''AT+MQTTSUB=0,'' @ quoted (replicate 127 CHR ''a'') @ '',0'' @ CRLF,
              ''AT+MQTTSUB=0,'' @ quoted (replicate 127 CHR ''a'') @ '',2'' @ CRLF]\<rparr>\<rparr>"
      and g' = "fresh\<lparr>mqtt := zero_handle\<lparr>initialized := True, connected := True,
            subscriptions := \<lparr>topic = replicate 127 CHR ''a'', qos = MQTT_QOS_2, active = True\<rparr>
              # replicate 7 zero_sub,
            subscriptionCount := 1, state := 6\<rparr>,
          esp8266 := idle_board\<lparr>rxBuffer := ''OK'' @ [NUL], rxLength := 2, rxComplete := True,
            txBuffer := ''AT+MQTTSUB=0,'' @ quoted (replicate 127 CHR ''a'') @ '',2'' @ CRLF,
            tick := 26, irqs := [],
            wire := [''AT+MQTTSUB=0,'' @ quoted (replicate 127 CHR ''a'') @ '',0'' @ CRLF,
              ''AT+MQTTSUB=0,'' @ quoted (replicate 127 CHR ''a'') @ '',2'' @ CRLF]\<rparr>\<rparr>"
      and b = "esp8266 (fresh\<lparr>mqtt := zero_handle\<lparr>initialized := True, connected := True,
            subscriptions := \<lparr>topic = replicate 127 CHR ''a'', qos = MQTT_QOS_2, active = True\<rparr>
              # replicate 7 zero_sub,
            subscriptionCount := 1, state := 6\<rparr>,
          esp8266 := idle_board\<lparr>rxBuffer := ''OK'' @ [NUL], rxLength := 2, rxComplete := True,
            txBuffer := ''AT+MQTTSUB=0,'' @ quoted (replicate 127 CHR ''a'') @ '',2'' @ CRLF,
            tick := 26, irqs := [],
            wire := [''AT+MQTTSUB=0,'' @ quoted (replicate 127 CHR ''a'') @ '',0'' @ CRLF,
              ''AT+MQTTSUB=0,'' @ quoted (replicate 127 CHR ''a'') @ '',2'' @ CRLF]\<rparr>\<rparr>)"]
  by (simp add: at_reset_def table_consistent_def board_eval mqtt_eval replicate_numeral_eq
        cong: let_weak_cong bind_weak_cong)

subsection \<open>What drops the subscriptions\<close>

text \<open>
  Claim C7, as stated, fails: \<open>MQTT_Clean\<close> clears the connected flag and leaves the table
  as it is. A program connects, subscribes to the topic \<open>a\<close> and calls \<open>MQTT_Clean\<close>, the
  co-processor answering \<open>OK\<close> each time; the session is then not connected and
  \<open>MQTT_GetSubscriptions\<close> still returns the entry.
\<close>

theorem clean_keeps_subscriptions_counterexample:
  "map_option (\<lambda>g. (connected (mqtt g), MQTT_GetSubscriptions g, subscriptionCount (mqtt g)))
     (run [Call_Init, Call_Connect, Call_Subscribe (Some ''a'') MQTT_QOS_1, Call_Clean]
        (fresh\<lparr>esp8266 := idle_board\<lparr>irqs := [(1, TxCplt), (5, RxEvent ''OK''),
           (14, TxCplt), (20, RxEvent ''OK''), (27, TxCplt), (30, RxEvent ''OK'')]\<rparr>\<rparr>))
   = Some (False, ([\<lparr>topic = ''a'', qos = MQTT_QOS_1, active = True\<rparr>], 1), 1)"
  by (simp add: board_eval mqtt_eval replicate_numeral_eq cong: let_weak_cong bind_weak_cong)

text \<open>
  Claim C7, amended: \<open>MQTT_Disconnect\<close> on an initialised session returns and leaves the
  session not connected with an empty subscription set: every entry of the table is
  inactive, \<open>subscriptionCount\<close> is 0 and \<open>MQTT_GetSubscriptions\<close> returns nothing.
\<close>

theorem disconnect_drops_subscriptions:
  assumes "initialized (mqtt g)" and "slack (esp8266 g) \<le> 2 ^ 31"
  shows "\<exists>r g'. MQTT_Disconnect g = Some (r, g')
     \<and> \<not> connected (mqtt g')
     \<and> (\<forall>s \<in> set (subscriptions (mqtt g')). \<not> active s)
     \<and> subscriptionCount (mqtt g') = 0
     \<and> MQTT_GetSubscriptions g' = ([], 0)"
proof -
  have "\<exists>ret b. ESP8266_SendCommandF (Some ''OK'') MQTT_DEFAULT_TIMEOUT
                    (''AT+MQTTCLEAN='' @ fmt_d MQTT_LINK_ID @ CRLF) (esp8266 g) = Some (ret, b)
                  \<and> slack b = slack (esp8266 g)"
    using assms(2) by (intro session_exchange_returns) (simp_all add: MQTT_DEFAULT_TIMEOUT_def)
  then obtain ret b where "ESP8266_SendCommandF (Some ''OK'') MQTT_DEFAULT_TIMEOUT
                    (''AT+MQTTCLEAN='' @ fmt_d MQTT_LINK_ID @ CRLF) (esp8266 g) = Some (ret, b)"
    by blast
  with assms(1) show ?thesis
    by (simp add: MQTT_Disconnect_def MQTT_GetSubscriptions_def zero_sub_def)
qed

text \<open>The program of the counterexample with \<open>MQTT_Disconnect\<close> in the place of \<open>MQTT_Clean\<close>.\<close>

theorem disconnect_drops_subscriptions_witness:
  "map_option (\<lambda>g. (initialized (mqtt g), slack (esp8266 g) \<le> 2 ^ 31, MQTT_GetSubscriptions g))
     (run [Call_Init, Call_Connect, Call_Subscribe (Some ''a'') MQTT_QOS_1]
        (fresh\<lparr>esp8266 := idle_board\<lparr>irqs := [(1, TxCplt), (5, RxEvent ''OK''),
           (14, TxCplt), (20, RxEvent ''OK''), (27, TxCplt), (30, RxEvent ''OK'')]\<rparr>\<rparr>))
   = Some (True, True, ([\<lparr>topic = ''a'', qos = MQTT_QOS_1, active = True\<rparr>], 1))
   \<and> map_option (\<lambda>g. (connected (mqtt g), MQTT_GetSubscriptions g, subscriptionCount (mqtt g)))
     (run [Call_Init, Call_Connect, Call_Subscribe (Some ''a'') MQTT_QOS_1, Call_Disconnect]
        (fresh\<lparr>esp8266 := idle_board\<lparr>irqs := [(1, TxCplt), (5, RxEvent ''OK''),
           (14, TxCplt), (20, RxEvent ''OK''), (27, TxCplt), (30, RxEvent ''OK'')]\<rparr>\<rparr>))
   = Some (False, ([], 0), 0)"
  using disconnect_drops_subscriptions [of
     "the (run [Call_Init, Call_Connect, Call_Subscribe (Some ''a'') MQTT_QOS_1]
        (fresh\<lparr>esp8266 := idle_board\<lparr>irqs := [(1, TxCplt), (5, RxEvent ''OK''),
           (14, TxCplt), (20, RxEvent ''OK''), (27, TxCplt), (30, RxEvent ''OK'')]\<rparr>\<rparr>))"]
  by (simp add: board_eval mqtt_eval replicate_numeral_eq cong: let_weak_cong bind_weak_cong)

subsection \<open>An incoming message in the periodic tick\<close>

text \<open>
  Claim C4. The line \<open>+MQTTSUBRECV:0,"t/1",5,hello\<close> reaches \<open>MQTT_ProcessData\<close> either in
  the response buffer, no message being flagged as pending, or as the pending message,
  the response buffer then holding none of the three markers the tick looks for. The
  line is terminated, as a received line is; what lies behind the terminator is
  arbitrary. The session is initialised and \<open>onMessageReceived\<close> is registered. Then the
  tick calls exactly one callback, \<open>onMessageReceived\<close>, with topic \<open>t/1\<close>, data \<open>hello\<close> and
  \<open>dataLen\<close> 5.
\<close>

theorem subrecv_line_delivered_once:
  assumes "initialized (mqtt g)" and "onMessageReceived (mqtt g)"
    and "line = ''+MQTTSUBRECV:0,'' @ quoted ''t/1'' @ '',5,hello''"
    and "(\<not> msgPending (mqtt g) \<and> rxBuffer (esp8266 g) = line @ NUL # junk)
       \<or> (msgPending (mqtt g) \<and> msgBuffer (mqtt g) = line @ NUL # junk
           \<and> \<not> ESP8266_ContainsString ''+MQTTDISCONNECTED:'' (esp8266 g)
           \<and> \<not> ESP8266_ContainsString ''+MQTTCONNECTED:'' (esp8266 g)
           \<and> \<not> ESP8266_ContainsString ''+MQTTSUBRECV:'' (esp8266 g))"
  shows "fired (MQTT_ProcessData g)
         = fired g @ [OnMessageReceived
                        \<lparr>msg_topic = ''t/1'', msg_data = ''hello'', msg_dataLen = 5,
                         msg_qos = MQTT_QOS_0, msg_retain = 0\<rparr>]"
  using assms(4)
proof
  assume "\<not> msgPending (mqtt g) \<and> rxBuffer (esp8266 g) = line @ NUL # junk"
  with assms(1-3) show ?thesis
    by (simp add: MQTT_ProcessData_def MQTT_ParseSubMessage_def ESP8266_GetResponseBuffer_def
          call_def memcpy_from_def quoted_def NUL_def atoi_def isspace_def isdigit_def
          digit_val_def MQTT_TOPIC_MAX_LEN_def MQTT_MESSAGE_MAX_LEN_def Let_def)
next
  assume "msgPending (mqtt g) \<and> msgBuffer (mqtt g) = line @ NUL # junk
           \<and> \<not> ESP8266_ContainsString ''+MQTTDISCONNECTED:'' (esp8266 g)
           \<and> \<not> ESP8266_ContainsString ''+MQTTCONNECTED:'' (esp8266 g)
           \<and> \<not> ESP8266_ContainsString ''+MQTTSUBRECV:'' (esp8266 g)"
  with assms(1-3) show ?thesis
    by (simp add: MQTT_ProcessData_def MQTT_ParseSubMessage_def ESP8266_GetResponseBuffer_def
          ESP8266_ContainsString_def
          call_def memcpy_from_def quoted_def NUL_def atoi_def isspace_def isdigit_def
          digit_val_def MQTT_TOPIC_MAX_LEN_def MQTT_MESSAGE_MAX_LEN_def Let_def)
qed

text \<open>
  The line is received from the co-processor while the application waits; the next tick
  delivers it.
\<close>

theorem subrecv_line_delivered_once_witness:
  "map_option (\<lambda>g. (initialized (mqtt g), onMessageReceived (mqtt g), msgPending (mqtt g),
                    rxBuffer (esp8266 g)))
     (run [Call_Init, Call_SetOnMessageReceived True, App_Delay 100]
        (fresh\<lparr>esp8266 := idle_board\<lparr>irqs :=
            [(50, RxEvent (''+MQTTSUBRECV:0,'' @ quoted ''t/1'' @ '',5,hello''))]\<rparr>\<rparr>))
   = Some (True, True, False, (''+MQTTSUBRECV:0,'' @ quoted ''t/1'' @ '',5,hello'') @ NUL # [])
   \<and> map_option fired
     (run [Call_Init, Call_SetOnMessageReceived True, App_Delay 100, Call_ProcessData]
        (fresh\<lparr>esp8266 := idle_board\<lparr>irqs :=
            [(50, RxEvent (''+MQTTSUBRECV:0,'' @ quoted ''t/1'' @ '',5,hello''))]\<rparr>\<rparr>))
   = Some [OnMessageReceived
             \<lparr>msg_topic = ''t/1'', msg_data = ''hello'', msg_dataLen = 5,
              msg_qos = MQTT_QOS_0, msg_retain = 0\<rparr>]"
  using subrecv_line_delivered_once [of
     "the (run [Call_Init, Call_SetOnMessageReceived True, App_Delay 100]
        (fresh\<lparr>esp8266 := idle_board\<lparr>irqs :=
            [(50, RxEvent (''+MQTTSUBRECV:0,'' @ quoted ''t/1'' @ '',5,hello''))]\<rparr>\<rparr>))"
     "''+MQTTSUBRECV:0,'' @ quoted ''t/1'' @ '',5,hello''" "[]"]
  by (simp add: board_eval mqtt_eval MQTT_SetOnMessageReceived_def
        cong: let_weak_cong bind_weak_cong)

subsection \<open>Querying the connection\<close>

text \<open>Where \<open>strstr\<close> and \<open>strchr\<close> stop.\<close>

lemma strstr_first:
  assumes "buf = pre @ pat @ rest" and "n = length pat" and "NUL \<notin> set pre"
    and "\<forall>i < length pre. take n (drop i buf) \<noteq> pat"
  shows "strstr buf pat = Some (pat @ rest)"
  using assms
proof (induction pre arbitrary: buf)
  case Nil
  show ?case
  proof (cases "pat @ rest")
    case Nil
    with Nil.prems(1) show ?thesis by simp
  next
    case (Cons x xs)
    have "take (length pat) (pat @ rest) = pat" by simp
    with Cons have "take (length pat) (x # xs) = pat" by simp
    with Cons Nil.prems(1) show ?thesis by simp
  qed
next
  case (Cons a pre)
  from Cons.prems(4) [rule_format, of 0] Cons.prems(1,2)
  have here: "take (length pat) (a # pre @ pat @ rest) \<noteq> pat" by simp
  have "\<forall>i < length pre. take n (drop i (pre @ pat @ rest)) \<noteq> pat"
  proof (intro allI impI)
    fix i assume "i < length pre"
    then have "Suc i < length (a # pre)" by simp
    from Cons.prems(4) [rule_format, OF this] Cons.prems(1)
    show "take n (drop i (pre @ pat @ rest)) \<noteq> pat" by simp
  qed
  with Cons.IH [of "pre @ pat @ rest"] Cons.prems(2,3)
  have "strstr (pre @ pat @ rest) pat = Some (pat @ rest)" by simp
  with here Cons.prems(1,3) show ?case by auto
qed

lemma strchr_first:
  "c \<notin> set xs \<Longrightarrow> NUL \<notin> set xs \<Longrightarrow> strchr (xs @ c # rest) c = Some (c # rest)"
  by (induction xs) auto

lemma atoi_4: "atoi (CHR ''4'' # CHR '','' # rest) = 4"
  by (simp add: atoi_def isspace_def isdigit_def digit_val_def)

text \<open>
  Claim C6. The exchange of \<open>MQTT_QueryConnection\<close> has succeeded and left the board \<open>b\<close>,
  whose response buffer holds, at its first \<open>+MQTTCONN:\<close> marker, a link id, a comma and
  the state field. Whatever the local state was, the call returns \<open>MQTT_OK\<close> with \<open>state\<close>
  set to the number read from the state field and \<open>connected\<close> set when that number is
  4 or more. For a line of the form \<open>+MQTTCONN:0,4,...\<close> the state is
  \<open>MQTT_STATE_CONNECTED\<close> and \<open>connected\<close> is set.
\<close>

theorem queryConnection_resyncs:
  assumes "ESP8266_SendCommand (Some (''AT+MQTTCONN?'' @ CRLF)) (Some ''OK'')
             MQTT_DEFAULT_TIMEOUT (esp8266 g) = Some (ESP8266_OK, b)"
    and "rxBuffer b = pre @ ''+MQTTCONN:'' @ lid @ CHR '','' # field"
    and "NUL \<notin> set pre"
    and "\<forall>i < length pre. take 10 (drop i (rxBuffer b)) \<noteq> ''+MQTTCONN:''"
    and "NUL \<notin> set lid" and "CHR '','' \<notin> set lid"
  shows "\<exists>g'. MQTT_QueryConnection g = Some (MQTT_OK, g')
     \<and> state (mqtt g') = atoi field \<and> connected (mqtt g') = (4 \<le> atoi field)
     \<and> (lid = ''0'' \<and> take 2 field = ''4,'' \<longrightarrow>
          state (mqtt g') = state_val MQTT_STATE_CONNECTED \<and> connected (mqtt g'))"
proof -
  have "strstr (rxBuffer b) ''+MQTTCONN:'' = Some (''+MQTTCONN:'' @ (lid @ CHR '','' # field))"
    by (rule strstr_first [OF assms(2) _ assms(3,4)]) simp
  then have marker: "strstr (ESP8266_GetResponseBuffer b) ''+MQTTCONN:''
        = Some (''+MQTTCONN:'' @ lid @ CHR '','' # field)"
    by (simp add: ESP8266_GetResponseBuffer_def)
  have comma: "strchr (drop 10 (''+MQTTCONN:'' @ lid @ CHR '','' # field)) (CHR '','')
        = Some (CHR '','' # field)"
    using strchr_first [OF assms(6,5)] by simp
  have four: "lid = ''0'' \<and> take 2 field = ''4,'' \<longrightarrow> atoi field = 4"
  proof
    assume "lid = ''0'' \<and> take 2 field = ''4,''"
    then obtain rest where "field = CHR ''4'' # CHR '','' # rest"
      by (cases field; cases "tl field") auto
    then show "atoi field = 4" by (simp add: atoi_4)
  qed
  let ?g' = "g\<lparr>esp8266 := b,
               mqtt := (mqtt g)\<lparr>state := atoi field, connected := (4 \<le> atoi field)\<rparr>\<rparr>"
  have "MQTT_QueryConnection g = Some (MQTT_OK, ?g')"
    using assms(1) marker comma
    by (simp add: MQTT_QueryConnection_def Let_def del: strstr.simps strchr.simps)
  with four show ?thesis
    by (intro exI [of _ ?g']) simp
qed

text \<open>
  The session has been disconnected; the co-processor answers the query with a line that
  reports state 4.
\<close>

theorem queryConnection_resyncs_witness:
  "ESP8266_SendCommand (Some (''AT+MQTTCONN?'' @ CRLF)) (Some ''OK'') MQTT_DEFAULT_TIMEOUT
     (idle_board\<lparr>irqs := [(1, TxCplt),
         (5, RxEvent (''+MQTTCONN:0,4,1,'' @ quoted ''h'' @ '',1883,'' @ quoted [] @ '',1'' @ CRLF @ ''OK''))]\<rparr>)
   = Some (ESP8266_OK,
       idle_board\<lparr>rxBuffer := ''+MQTTCONN:0,4,1,'' @ quoted ''h'' @ '',1883,'' @ quoted [] @ '',1''
                                 @ CRLF @ ''OK'' @ [NUL],
          rxLength := 33, rxComplete := True, tick := 13, wire := [''AT+MQTTCONN?'' @ CRLF]\<rparr>)
   \<and> map_option (\<lambda>(r, g). (r, state (mqtt g), connected (mqtt g)))
       (MQTT_QueryConnection
          (fresh\<lparr>mqtt := zero_handle\<lparr>initialized := True, state := 3\<rparr>,
             esp8266 := idle_board\<lparr>irqs := [(1, TxCplt),
               (5, RxEvent (''+MQTTCONN:0,4,1,'' @ quoted ''h'' @ '',1883,'' @ quoted [] @ '',1'' @ CRLF @ ''OK''))]\<rparr>\<rparr>))
     = Some (MQTT_OK, 4, True)"
  using queryConnection_resyncs [of
     "fresh\<lparr>mqtt := zero_handle\<lparr>initialized := True, state := 3\<rparr>,
             esp8266 := idle_board\<lparr>irqs := [(1, TxCplt),
               (5, RxEvent (''+MQTTCONN:0,4,1,'' @ quoted ''h'' @ '',1883,'' @ quoted [] @ '',1'' @ CRLF @ ''OK''))]\<rparr>\<rparr>"
     "idle_board\<lparr>rxBuffer := ''+MQTTCONN:0,4,1,'' @ quoted ''h'' @ '',1883,'' @ quoted [] @ '',1''
                                 @ CRLF @ ''OK'' @ [NUL],
          rxLength := 33, rxComplete := True, tick := 13, wire := [''AT+MQTTCONN?'' @ CRLF]\<rparr>"
     "[]" "''0''" "''4,1,'' @ quoted ''h'' @ '',1883,'' @ quoted [] @ '',1'' @ CRLF @ ''OK'' @ [NUL]"]
  by (simp add: board_eval mqtt_eval cong: let_weak_cong bind_weak_cong)

end
